theory Spec2Isabelle
  imports Complex_Main
begin

section \<open>Values and errors of the Python program\<close>

text \<open>
  The job portal is a Django REST application. Its views read request bodies and a model
  reply that are JSON documents, so the values the code handles are the values of Python's
  \<^verbatim>\<open>json\<close> module: \<^verbatim>\<open>None\<close>, booleans, unbounded integers, floats, strings, lists and
  dicts. A dict is kept as the list of its items in insertion order. A float is the rational
  it denotes, or one of the three special values.
\<close>

datatype pyfloat = Finite rat | NaN | PosInf | NegInf

datatype json =
    JNull
  | JBool bool
  | JInt int
  | JFloat pyfloat
  | JStr string
  | JArr "json list"
  | JObj "(string \<times> json) list"

text \<open>Every exception the modelled code can raise is a value; a raise is \<open>Inl\<close>.\<close>

datatype error =
    PermissionDenied string
  | Http404
  | AttributeError
  | TypeError
  | ValueError
  | OverflowError
  | KeyError
  | IndexError
  | RequestException
  | HTTPError nat
  | MultipleObjectsReturned
  | DatabaseError

text \<open>Truth value testing, as \<^verbatim>\<open>if x\<close>, \<^verbatim>\<open>x or y\<close> and \<^verbatim>\<open>not x\<close> apply it.\<close>

fun truthy :: "json \<Rightarrow> bool" where
  "truthy JNull = False"
| "truthy (JBool b) = b"
| "truthy (JInt n) = (n \<noteq> 0)"
| "truthy (JFloat (Finite q)) = (q \<noteq> 0)"
| "truthy (JFloat f) = True"
| "truthy (JStr s) = (s \<noteq> [])"
| "truthy (JArr xs) = (xs \<noteq> [])"
| "truthy (JObj kvs) = (kvs \<noteq> [])"

definition py_or :: "json \<Rightarrow> json \<Rightarrow> json" where
  "py_or x y = (if truthy x then x else y)"

text \<open>\<^verbatim>\<open>d.get(k)\<close> on a dict held as its item list; \<^verbatim>\<open>None\<close> when the key is absent.\<close>

definition dict_get :: "(string \<times> json) list \<Rightarrow> string \<Rightarrow> json" where
  "dict_get kvs k = (case map_of kvs k of None \<Rightarrow> JNull | Some v \<Rightarrow> v)"

text \<open>
  \<^verbatim>\<open>x.get(k)\<close> on an arbitrary value: only a dict has the method, every other value raises
  \<^verbatim>\<open>AttributeError\<close>.
\<close>

fun attr_get :: "json \<Rightarrow> string \<Rightarrow> error + json" where
  "attr_get (JObj kvs) k = Inr (dict_get kvs k)"
| "attr_get v k = Inl AttributeError"

text \<open>
  \<^verbatim>\<open>int(x)\<close>. The conversion of a string is the interpreter's and is a parameter
  \<open>int_of_str\<close>; a float is truncated towards zero.
\<close>

fun py_int :: "(string \<Rightarrow> error + int) \<Rightarrow> json \<Rightarrow> error + int" where
  "py_int int_of_str (JInt n) = Inr n"
| "py_int int_of_str (JBool b) = Inr (if b then 1 else 0)"
| "py_int int_of_str (JFloat (Finite q)) = Inr (if 0 \<le> q then \<lfloor>q\<rfloor> else \<lceil>q\<rceil>)"
| "py_int int_of_str (JFloat NaN) = Inl ValueError"
| "py_int int_of_str (JFloat f) = Inl OverflowError"
| "py_int int_of_str (JStr s) = int_of_str s"
| "py_int int_of_str v = Inl TypeError"

section \<open>A decoder for JSON text\<close>

text \<open>
  \<^verbatim>\<open>json.loads\<close> belongs to the standard library. The functions of the service take the
  decoder as a parameter \<open>loads\<close>, \<open>None\<close> standing for any exception it raises, and the general
  theorems hold for every decoder. \<open>json_loads\<close> below is a decoder for ASCII JSON text
  without \<^verbatim>\<open>\u\<close> escapes, written after the library's scanner (a value, surrounded by
  optional white space, and nothing else); it is the decoder of the worked examples. A decimal
  literal with a fraction or an exponent is kept as the rational it denotes.
\<close>

definition is_ws :: "char \<Rightarrow> bool" where
  "is_ws c = (c = CHR '' '' \<or> c = CHR 0x09 \<or> c = CHR 0x0A \<or> c = CHR 0x0D)"

fun skip_ws :: "string \<Rightarrow> string" where
  "skip_ws [] = []"
| "skip_ws (c # cs) = (if is_ws c then skip_ws cs else c # cs)"

definition is_digit :: "char \<Rightarrow> bool" where
  "is_digit c = (of_char c \<ge> (48::nat) \<and> of_char c \<le> (57::nat))"

definition digit_val :: "char \<Rightarrow> int" where
  "digit_val c = int (of_char c) - 48"

definition digits_val :: "string \<Rightarrow> int" where
  "digits_val ds = foldl (\<lambda>a c. 10 * a + digit_val c) 0 ds"

definition unescape :: "char \<Rightarrow> char option" where
  "unescape e =
     (if e = CHR 0x22 then Some (CHR 0x22)
      else if e = CHR 0x5C then Some (CHR 0x5C)
      else if e = CHR ''/'' then Some (CHR ''/'')
      else if e = CHR ''b'' then Some (CHR 0x08)
      else if e = CHR ''f'' then Some (CHR 0x0C)
      else if e = CHR ''n'' then Some (CHR 0x0A)
      else if e = CHR ''r'' then Some (CHR 0x0D)
      else if e = CHR ''t'' then Some (CHR 0x09)
      else None)"

text \<open>The text of a string after its opening quote: the decoded string and the rest.\<close>

fun scan_string :: "string \<Rightarrow> string \<Rightarrow> (string \<times> string) option" where
  "scan_string acc [] = None"
| "scan_string acc (c # cs) =
     (if c = CHR 0x22 then Some (rev acc, cs)
      else if c = CHR 0x5C then
        (case cs of
           [] \<Rightarrow> None
         | e # cs' \<Rightarrow> (case unescape e of None \<Rightarrow> None | Some d \<Rightarrow> scan_string (d # acc) cs'))
      else if of_char c < (32::nat) then None
      else scan_string (c # acc) cs)"

text \<open>
  A number: \<^verbatim>\<open>-?(0|[1-9][0-9]*)(\.[0-9]+)?([eE][-+]?[0-9]+)?\<close>, the longest match; an
  integer when it has neither fraction nor exponent.
\<close>

definition scan_int_part :: "string \<Rightarrow> (string \<times> string) option" where
  "scan_int_part cs =
     (case cs of
        [] \<Rightarrow> None
      | c # cs' \<Rightarrow>
          if c = CHR ''0'' then Some ([c], cs')
          else if is_digit c then Some (c # takeWhile is_digit cs', dropWhile is_digit cs')
          else None)"

definition scan_frac :: "string \<Rightarrow> (string \<times> string) option" where
  "scan_frac cs =
     (case cs of
        c # d # cs' \<Rightarrow>
          if c = CHR ''.'' \<and> is_digit d
          then Some (d # takeWhile is_digit cs', dropWhile is_digit cs')
          else None
      | _ \<Rightarrow> None)"

definition scan_exp :: "string \<Rightarrow> (int \<times> string) option" where
  "scan_exp cs =
     (case cs of
        e # cs' \<Rightarrow>
          if e = CHR ''e'' \<or> e = CHR ''E'' then
            (case cs' of
               s # d # cs'' \<Rightarrow>
                 if (s = CHR ''+'' \<or> s = CHR ''-'') \<and> is_digit d then
                   Some ((if s = CHR ''-'' then - 1 else 1) * digits_val (d # takeWhile is_digit cs''),
                         dropWhile is_digit cs'')
                 else if is_digit s then
                   Some (digits_val (takeWhile is_digit cs'), dropWhile is_digit cs')
                 else None
             | [d] \<Rightarrow> if is_digit d then Some (digit_val d, []) else None
             | [] \<Rightarrow> None)
          else None
      | [] \<Rightarrow> None)"

definition decimal_value :: "int \<Rightarrow> int \<Rightarrow> rat" where
  "decimal_value m e = (if 0 \<le> e then of_int (m * 10 ^ nat e) else of_int m / of_int (10 ^ nat (- e)))"

definition scan_number :: "string \<Rightarrow> (json \<times> string) option" where
  "scan_number cs =
     (let (neg, cs1) = (case cs of c # r \<Rightarrow> if c = CHR ''-'' then (True, r) else (False, cs) | [] \<Rightarrow> (False, cs))
      in case scan_int_part cs1 of
           None \<Rightarrow> None
         | Some (ip, cs2) \<Rightarrow>
             (let sgn = (if neg then - 1 else 1 :: int);
                  (fp, cs3) = (case scan_frac cs2 of None \<Rightarrow> ([], cs2) | Some (f, r) \<Rightarrow> (f, r))
              in case scan_exp cs3 of
                   None \<Rightarrow>
                     if fp = [] then Some (JInt (sgn * digits_val ip), cs3)
                     else Some (JFloat (Finite (decimal_value (sgn * digits_val (ip @ fp)) (- int (length fp)))), cs3)
                 | Some (ex, cs4) \<Rightarrow>
                     Some (JFloat (Finite (decimal_value (sgn * digits_val (ip @ fp)) (ex - int (length fp)))), cs4)))"

text \<open>A literal name at the head of the text.\<close>

definition strip_prefix :: "string \<Rightarrow> string \<Rightarrow> string option" where
  "strip_prefix p cs = (if take (length p) cs = p then Some (drop (length p) cs) else None)"

text \<open>\<^verbatim>\<open>d[k] = v\<close> on the item list: a repeated key keeps its place and takes the new value.\<close>

fun dict_set :: "(string \<times> json) list \<Rightarrow> string \<Rightarrow> json \<Rightarrow> (string \<times> json) list" where
  "dict_set [] k v = [(k, v)]"
| "dict_set ((k', v') # kvs) k v = (if k' = k then (k, v) # kvs else (k', v') # dict_set kvs k v)"

text \<open>
  The scanner. The first argument bounds the depth of the calls; \<open>json_loads\<close> starts it
  above the length of the text. A level of nesting takes two calls and, in a text that
  decodes, at least two characters (its brackets), and a further element or member takes one
  call and at least two characters.
\<close>

fun scan_once :: "nat \<Rightarrow> string \<Rightarrow> (json \<times> string) option"
and scan_array :: "nat \<Rightarrow> json list \<Rightarrow> string \<Rightarrow> (json \<times> string) option"
and scan_object :: "nat \<Rightarrow> (string \<times> json) list \<Rightarrow> string \<Rightarrow> (json \<times> string) option" where
  "scan_once 0 cs = None"
| "scan_once (Suc n) [] = None"
| "scan_once (Suc n) (c # cs) =
     (if c = CHR 0x22 then
        (case scan_string [] cs of None \<Rightarrow> None | Some (s, r) \<Rightarrow> Some (JStr s, r))
      else if c = CHR ''{'' then
        (case skip_ws cs of
           [] \<Rightarrow> None
         | d # r \<Rightarrow> if d = CHR ''}'' then Some (JObj [], r)
                    else if d = CHR 0x22 then scan_object n [] r
                    else None)
      else if c = CHR ''['' then
        (case skip_ws cs of
           [] \<Rightarrow> None
         | d # r \<Rightarrow> if d = CHR '']'' then Some (JArr [], r) else scan_array n [] (d # r))
      else if c = CHR ''n'' then
        (case strip_prefix ''ull'' cs of None \<Rightarrow> None | Some r \<Rightarrow> Some (JNull, r))
      else if c = CHR ''t'' then
        (case strip_prefix ''rue'' cs of None \<Rightarrow> None | Some r \<Rightarrow> Some (JBool True, r))
      else if c = CHR ''f'' then
        (case strip_prefix ''alse'' cs of None \<Rightarrow> None | Some r \<Rightarrow> Some (JBool False, r))
      else
        (case scan_number (c # cs) of
           Some res \<Rightarrow> Some res
         | None \<Rightarrow>
             (case strip_prefix ''NaN'' (c # cs) of
                Some r \<Rightarrow> Some (JFloat NaN, r)
              | None \<Rightarrow>
                  (case strip_prefix ''Infinity'' (c # cs) of
                     Some r \<Rightarrow> Some (JFloat PosInf, r)
                   | None \<Rightarrow>
                       (case strip_prefix ''-Infinity'' (c # cs) of
                          Some r \<Rightarrow> Some (JFloat NegInf, r)
                        | None \<Rightarrow> None)))))"
| "scan_array 0 acc cs = None"
| "scan_array (Suc n) acc cs =
     (case scan_once n cs of
        None \<Rightarrow> None
      | Some (v, r) \<Rightarrow>
          (case skip_ws r of
             [] \<Rightarrow> None
           | d # r' \<Rightarrow>
               if d = CHR '']'' then Some (JArr (acc @ [v]), r')
               else if d = CHR '','' then scan_array n (acc @ [v]) (skip_ws r')
               else None))"
| "scan_object 0 acc cs = None"
| "scan_object (Suc n) acc cs =
     (case scan_string [] cs of
        None \<Rightarrow> None
      | Some (k, r) \<Rightarrow>
          (case skip_ws r of
             [] \<Rightarrow> None
           | d # r' \<Rightarrow>
               if d \<noteq> CHR '':'' then None
               else
                 (case scan_once n (skip_ws r') of
                    None \<Rightarrow> None
                  | Some (v, r'') \<Rightarrow>
                      (case skip_ws r'' of
                         [] \<Rightarrow> None
                       | e # r3 \<Rightarrow>
                           if e = CHR ''}'' then Some (JObj (dict_set acc k v), r3)
                           else if e = CHR '','' then
                             (case skip_ws r3 of
                                [] \<Rightarrow> None
                              | q # r4 \<Rightarrow> if q = CHR 0x22 then scan_object n (dict_set acc k v) r4 else None)
                           else None))))"

definition json_loads :: "string \<Rightarrow> json option" where
  "json_loads s =
     (case scan_once (Suc (length s)) (skip_ws s) of
        None \<Rightarrow> None
      | Some (v, r) \<Rightarrow> if skip_ws r = [] then Some v else None)"


section \<open>The data model (models.py)\<close>

text \<open>
  Each Django model is a record, each table a list of rows, a foreign key the primary key of
  the row it points to. Dates, times and timestamps are natural numbers.
\<close>

record custom_user =
  user_id :: nat
  email :: string
  first_name :: string
  last_name :: string
  phone :: "string option"
  gender :: "string option"
  dob :: "nat option"
  role :: string
  accept_terms :: bool
  newsletter :: bool
  user_is_active :: bool
  is_staff :: bool
  is_superuser :: bool

record employer =
  employer_id :: nat
  employer_user :: nat
  company_name :: string
  company_website :: string
  employer_created_at :: nat

record job_seeker =
  seeker_id :: nat
  seeker_user :: nat
  resume_url :: string
  resume_text :: string
  seeker_created_at :: nat

record job =
  job_id :: nat
  job_employer :: nat
  job_title :: string
  description :: string
  requirement :: string
  salary :: "rat option"
  location :: string
  job_created_at :: nat
  job_is_active :: bool

datatype status = PENDING | REVIEW | ACCEPTED | REJECTED

record application =
  application_id :: nat
  application_job :: nat
  application_seeker :: nat
  application_status :: status
  match_score :: "rat option"
  application_created_at :: nat

record interview =
  interview_id :: nat
  interview_application :: nat
  interview_title :: string
  interview_date :: nat
  interview_time :: nat
  interview_created_at :: nat

record appointment =
  appointment_id :: nat
  appointment_application :: nat
  appointment_title :: string
  appointment_time :: nat
  appointment_date :: nat
  appointment_content :: string
  appointment_created_at :: nat

record payment =
  payment_id :: nat
  payment_user :: nat
  payment_time :: nat
  payment_date :: nat
  amount :: rat
  payment_method :: string
  payment_created_at :: nat

record db =
  users :: "custom_user list"
  employers :: "employer list"
  seekers :: "job_seeker list"
  jobs :: "job list"
  applications :: "application list"
  interviews :: "interview list"
  appointments :: "appointment list"
  payments :: "payment list"

text \<open>The primary key given to a new row: above every key of the table.\<close>

definition next_pk :: "nat list \<Rightarrow> nat" where
  "next_pk ids = Suc (foldr max ids 0)"

text \<open>
  \<^verbatim>\<open>request.user\<close> is \<open>None\<close> for the anonymous user, who is not authenticated and has
  neither a role nor a profile. The reverse one-to-one accessors \<^verbatim>\<open>seeker_profile\<close> and
  \<^verbatim>\<open>employer_profile\<close> exist when a profile row points to the user.
\<close>

definition seeker_profile :: "db \<Rightarrow> custom_user \<Rightarrow> job_seeker option" where
  "seeker_profile d u = find (\<lambda>s. seeker_user s = user_id u) (seekers d)"

definition employer_profile :: "db \<Rightarrow> custom_user \<Rightarrow> employer option" where
  "employer_profile d u = find (\<lambda>e. employer_user e = user_id u) (employers d)"

section \<open>The interpreter, the libraries and the network\<close>

text \<open>
  What the code calls outside the repository is a parameter of the model: the JSON codec, the
  conversion of a string to an integer, \<^verbatim>\<open>str.strip\<close>, the conversion the ORM applies to a
  primary-key lookup value that is not an integer, and the one HTTP request of the service.
  \<^verbatim>\<open>requests.post\<close> either raises (time-out, connection failure) or returns a response
  with a status code and the outcome of its \<^verbatim>\<open>json()\<close> method.
\<close>

record message =
  msg_role :: string
  msg_content :: string

record http_reply =
  status_code :: nat
  reply_json :: "error + json"

record python =
  loads :: "string \<Rightarrow> json option"
  dumps :: "json \<Rightarrow> string"
  int_of_str :: "string \<Rightarrow> error + int"
  str_strip :: "string \<Rightarrow> string"
  get_prep_value :: "json \<Rightarrow> error + int"
  requests_post :: "message list \<Rightarrow> error + http_reply"

section \<open>The recommendation service (services/ai\_service.py)\<close>

definition system_prompt :: string where
  \<open>system_prompt =
     ''You are an assistant that selects the single best matching job for a job seeker. '' @
     ''ALWAYS respond with strict JSON using this schema without markdown or commentary: '' @
     ''{'' @ [CHR 0x0A] @ ''  "best_job_id": number,'' @ [CHR 0x0A] @ ''  "score": number,'' @
     [CHR 0x0A] @ ''  "reason": string'' @ [CHR 0x0A] @ ''} '' @
     ''Choose best_job_id from the provided list of jobs by id. Score in 0..100.''\<close>

definition build_messages :: "python \<Rightarrow> string \<Rightarrow> json list \<Rightarrow> message list" where
  "build_messages py resume jobs_payload =
     (let user_prompt = JObj
            [(''resume_text'', JStr resume),
             (''jobs'', JArr jobs_payload),
             (''instruction'', JStr
                (''Pick the single best matching job id based on skills/experience overlap and role relevance. '' @
                 ''Return strict JSON, no extra text.''))]
      in [\<lparr>msg_role = ''system'', msg_content = system_prompt\<rparr>,
          \<lparr>msg_role = ''user'', msg_content = dumps py user_prompt\<rparr>])"

text \<open>\<^verbatim>\<open>x.get(k, default)\<close> and \<^verbatim>\<open>x[0]\<close> on an arbitrary value.\<close>

fun attr_get_default :: "json \<Rightarrow> string \<Rightarrow> json \<Rightarrow> error + json" where
  "attr_get_default (JObj kvs) k dflt = Inr (case map_of kvs k of None \<Rightarrow> dflt | Some v \<Rightarrow> v)"
| "attr_get_default v k dflt = Inl AttributeError"

fun subscript0 :: "json \<Rightarrow> error + json" where
  "subscript0 (JArr []) = Inl IndexError"
| "subscript0 (JArr (x # xs)) = Inr x"
| "subscript0 (JStr []) = Inl IndexError"
| "subscript0 (JStr (c # cs)) = Inr (JStr [c])"
| "subscript0 (JObj kvs) = Inl KeyError"
| "subscript0 v = Inl TypeError"

text \<open>\<^verbatim>\<open>raise_for_status\<close> raises for the status codes 400 to 599.\<close>

definition raise_for_status :: "http_reply \<Rightarrow> error + unit" where
  "raise_for_status resp =
     (if 400 \<le> status_code resp \<and> status_code resp < 600 then Inl (HTTPError (status_code resp))
      else Inr ())"

definition call_openrouter :: "python \<Rightarrow> message list \<Rightarrow> error + json" where
  "call_openrouter py messages =
     (case requests_post py messages of
        Inl e \<Rightarrow> Inl e
      | Inr resp \<Rightarrow>
          (case raise_for_status resp of
             Inl e \<Rightarrow> Inl e
           | Inr _ \<Rightarrow>
               (case reply_json resp of
                  Inl e \<Rightarrow> Inl e
                | Inr data \<Rightarrow>
                    (case attr_get_default data ''choices'' (JArr [JObj []]) of
                       Inl e \<Rightarrow> Inl e
                     | Inr choices \<Rightarrow>
                         (case subscript0 choices of
                            Inl e \<Rightarrow> Inl e
                          | Inr choice \<Rightarrow>
                              (case attr_get_default choice ''message'' (JObj []) of
                                 Inl e \<Rightarrow> Inl e
                               | Inr msg \<Rightarrow>
                                   (case attr_get_default msg ''content'' (JStr []) of
                                      Inl e \<Rightarrow> Inl e
                                    | Inr content \<Rightarrow> Inr (py_or content (JStr [])))))))))"

text \<open>\<^verbatim>\<open>s.find(c)\<close>, \<^verbatim>\<open>s.rfind(c)\<close> for a one-character needle, and the slice \<^verbatim>\<open>s[i:j]\<close>.\<close>

fun str_find :: "string \<Rightarrow> char \<Rightarrow> int" where
  "str_find [] c = - 1"
| "str_find (x # xs) c = (if x = c then 0 else (let r = str_find xs c in if r = - 1 then - 1 else r + 1))"

definition str_rfind :: "string \<Rightarrow> char \<Rightarrow> int" where
  "str_rfind s c = (let r = str_find (rev s) c in if r = - 1 then - 1 else int (length s) - 1 - r)"

definition slice_bound :: "nat \<Rightarrow> int \<Rightarrow> nat" where
  "slice_bound n i = (if i < 0 then nat (max 0 (i + int n)) else min (nat i) n)"

definition str_slice :: "string \<Rightarrow> int \<Rightarrow> int \<Rightarrow> string" where
  "str_slice s i j = (let a = slice_bound (length s) i; b = slice_bound (length s) j in take (b - a) (drop a s))"

text \<open>
  \<open>parse_best_job_json\<close>. The result is a Python value, \<open>JNull\<close> being \<^verbatim>\<open>None\<close>. A reply that
  is not a string makes the decoder raise, which is caught, and then has no \<^verbatim>\<open>find\<close>.
\<close>

definition parse_best_job_json :: "python \<Rightarrow> json \<Rightarrow> error + json" where
  "parse_best_job_json py raw =
     (case raw of
        JStr s \<Rightarrow>
          (case loads py s of
             Some v \<Rightarrow> Inr v
           | None \<Rightarrow>
               (let start = str_find s (CHR ''{''); end = str_rfind s (CHR ''}'')
                in if start \<noteq> - 1 \<and> end \<noteq> - 1 \<and> end > start then
                     (case loads py (str_slice s start (end + 1)) of
                        Some v \<Rightarrow> Inr v
                      | None \<Rightarrow> Inr JNull)
                   else Inr JNull))
      | _ \<Rightarrow> Inl AttributeError)"

record recommendation =
  best_job_id :: json
  score :: json
  reason :: json
  raw :: json

text \<open>
  What \<open>recommend_best_job\<close> makes of the reply once the call has returned it: the parse,
  \<^verbatim>\<open>or {}\<close>, and the three \<^verbatim>\<open>get\<close>s.
\<close>

definition structured_result :: "python \<Rightarrow> json \<Rightarrow> error + recommendation" where
  "structured_result py raw_reply =
     (case parse_best_job_json py raw_reply of
        Inl e \<Rightarrow> Inl e
      | Inr p \<Rightarrow>
          (let parsed = py_or p (JObj []) in
           case attr_get parsed ''best_job_id'' of
             Inl e \<Rightarrow> Inl e
           | Inr b \<Rightarrow>
               (case attr_get parsed ''score'' of
                  Inl e \<Rightarrow> Inl e
                | Inr sc \<Rightarrow>
                    (case attr_get parsed ''reason'' of
                       Inl e \<Rightarrow> Inl e
                     | Inr rs \<Rightarrow>
                         Inr \<lparr>best_job_id = b, score = sc, reason = rs, raw = raw_reply\<rparr>))))"

definition recommend_best_job :: "python \<Rightarrow> string \<Rightarrow> json list \<Rightarrow> error + recommendation" where
  "recommend_best_job py resume jobs_payload =
     (case call_openrouter py (build_messages py resume jobs_payload) of
        Inl e \<Rightarrow> Inl e
      | Inr raw_reply \<Rightarrow> structured_result py raw_reply)"

text \<open>
  The span the specification names, written from its words: the text from the first
  \<^verbatim>\<open>{\<close> to the last \<^verbatim>\<open>}\<close>. There is such a span when a \<^verbatim>\<open>}\<close> follows the first \<^verbatim>\<open>{\<close>.
\<close>

definition has_brace_span :: "string \<Rightarrow> bool" where
  "has_brace_span s = (CHR ''}'' \<in> set (dropWhile (\<lambda>c. c \<noteq> CHR ''{'') s))"

definition first_to_last_brace :: "string \<Rightarrow> string" where
  "first_to_last_brace s =
     rev (dropWhile (\<lambda>c. c \<noteq> CHR ''}'') (rev (dropWhile (\<lambda>c. c \<noteq> CHR ''{'') s)))"

section \<open>The views (views.py)\<close>

record request =
  request_user :: "custom_user option"
  request_method :: string
  request_data :: "(string \<times> json) list"

datatype body =
    NoContent
  | Detail string
  | Recommended json json job

record response =
  response_status :: nat
  response_body :: body

text \<open>
  The views are the methods as written. The permission classes are checked by the framework
  before it calls a method: a POST, PUT, PATCH or DELETE reaches a view of this file only from
  an authenticated caller (\<^verbatim>\<open>IsAuthenticatedOrReadOnly\<close>). A response is its status and its
  body; the job a body carries stands for the job as serialized by \<^verbatim>\<open>JobSerializer\<close>.
\<close>

subsection \<open>AIJobRecommendationView.post\<close>

text \<open>
  \<^verbatim>\<open>Job.objects.filter(is_active=True).order_by('-created_at')\<close>: the active rows, latest
  first; rows created at the same instant keep the order of the table.
\<close>

definition active_jobs :: "db \<Rightarrow> job list" where
  "active_jobs d = sort_key (\<lambda>j. - int (job_created_at j)) (filter job_is_active (jobs d))"

text \<open>
  The slice \<^verbatim>\<open>[: max(5, limit)]\<close> of that query, as the list comprehension evaluates it.
  The bound goes to the database as the \<^verbatim>\<open>LIMIT\<close> of the statement, a signed 64-bit
  integer: from \<open>2 ^ 63\<close> on the statement is refused and the evaluation raises
  (\<^verbatim>\<open>OverflowError\<close> from the SQLite driver, \<^verbatim>\<open>DataError\<close> from PostgreSQL), whatever the
  table holds. \<open>DatabaseError\<close> stands for that exception.
\<close>

definition jobs_qs :: "db \<Rightarrow> int \<Rightarrow> error + job list" where
  "jobs_qs d limit =
     (if max 5 limit < 2 ^ 63 then Inr (take (nat (max 5 limit)) (active_jobs d))
      else Inl DatabaseError)"

definition job_payload :: "job \<Rightarrow> json" where
  "job_payload j = JObj
     [(''id'', JInt (int (job_id j))),
      (''title'', JStr (job_title j)),
      (''description'', JStr (description j)),
      (''requirement'', JStr (requirement j)),
      (''location'', JStr (location j))]"

text \<open>
  \<^verbatim>\<open>Job.objects.filter(pk=best_id, is_active=True).first()\<close>. An integer is the key looked
  up; any other value goes through the ORM's conversion, which may raise.
\<close>

definition pk_lookup_value :: "python \<Rightarrow> json \<Rightarrow> error + int" where
  "pk_lookup_value py v = (case v of JInt n \<Rightarrow> Inr n | _ \<Rightarrow> get_prep_value py v)"

definition active_job_by_pk :: "db \<Rightarrow> int \<Rightarrow> job option" where
  "active_job_by_pk d n = find (\<lambda>j. int (job_id j) = n \<and> job_is_active j) (jobs d)"

text \<open>\<^verbatim>\<open>(request.data.get('resume_text') or '').strip()\<close>: only a string has \<^verbatim>\<open>strip\<close>.\<close>

definition request_resume_text :: "python \<Rightarrow> request \<Rightarrow> error + string" where
  "request_resume_text py req =
     (case py_or (dict_get (request_data req) ''resume_text'') (JStr []) of
        JStr s \<Rightarrow> Inr (str_strip py s)
      | _ \<Rightarrow> Inl AttributeError)"

text \<open>\<^verbatim>\<open>int(request.data.get('limit') or 25)\<close>.\<close>

definition request_limit :: "python \<Rightarrow> request \<Rightarrow> error + int" where
  "request_limit py req = py_int (int_of_str py) (py_or (dict_get (request_data req) ''limit'') (JInt 25))"

text \<open>The resume sent to the model: the request's, or the stored one of the caller's seeker profile.\<close>

definition effective_resume :: "db \<Rightarrow> request \<Rightarrow> string \<Rightarrow> string" where
  "effective_resume d req resume =
     (if resume = [] then
        (case request_user req of
           None \<Rightarrow> resume
         | Some u \<Rightarrow>
             (case seeker_profile d u of
                None \<Rightarrow> resume
              | Some sp \<Rightarrow> (if resume_text sp \<noteq> [] then resume_text sp else [])))
      else resume)"

definition post :: "python \<Rightarrow> db \<Rightarrow> request \<Rightarrow> error + response" where
  "post py d req =
     (case request_resume_text py req of
        Inl e \<Rightarrow> Inl e
      | Inr resume0 \<Rightarrow>
          (case request_limit py req of
             Inl e \<Rightarrow> Inl e
           | Inr limit \<Rightarrow>
               (let resume = effective_resume d req resume0 in
                case jobs_qs d limit of
                  Inl e \<Rightarrow> Inl e
                | Inr qs \<Rightarrow>
                    (let jobs_payload = map job_payload qs
                     in if jobs_payload = [] then
                          Inr \<lparr>response_status = 404, response_body = Detail ''No active jobs available.''\<rparr>
                        else
                          (case recommend_best_job py resume jobs_payload of
                             Inl e \<Rightarrow> Inl e
                           | Inr result \<Rightarrow>
                               (case (if truthy (best_job_id result) then
                                        (case pk_lookup_value py (best_job_id result) of
                                           Inl e \<Rightarrow> Inl e
                                         | Inr n \<Rightarrow> Inr (active_job_by_pk d n))
                                      else Inr None) of
                                  Inl e \<Rightarrow> Inl e
                                | Inr (Some best_job) \<Rightarrow>
                                    Inr \<lparr>response_status = 200,
                                         response_body = Recommended (score result) (reason result) best_job\<rparr>
                                | Inr None \<Rightarrow>
                                    (case qs of
                                       [] \<Rightarrow> Inl IndexError
                                     | first_job # _ \<Rightarrow>
                                         Inr \<lparr>response_status = 200,
                                              response_body =
                                                Recommended (score result) (reason result) first_job\<rparr>)))))))"

subsection \<open>ApplicationListView.perform\_create\<close>

text \<open>
  The serializer's validated data: the job of the write-only primary-key field, and the
  status when the request gives one (the field is writable and optional). A view returns its
  outcome and the database it leaves; rows written before a raise stay written.
\<close>

record application_data =
  data_job :: "job option"
  data_status :: "status option"

definition application_exists :: "db \<Rightarrow> nat \<Rightarrow> nat \<Rightarrow> bool" where
  "application_exists d j s =
     list_ex (\<lambda>a. application_job a = j \<and> application_seeker a = s) (applications d)"

definition perform_create_application ::
  "nat \<Rightarrow> db \<Rightarrow> request \<Rightarrow> application_data \<Rightarrow> (error + unit) \<times> db" where
  "perform_create_application now d req vd =
     (case request_user req of
        None \<Rightarrow> (Inl (PermissionDenied ''Only job seekers can apply.''), d)
      | Some u \<Rightarrow>
          if role u \<noteq> ''seeker'' then (Inl (PermissionDenied ''Only job seekers can apply.''), d)
          else
            (let (seeker, d1) =
                   (case seeker_profile d u of
                      None \<Rightarrow>
                        (let s = \<lparr>seeker_id = next_pk (map seeker_id (seekers d)), seeker_user = user_id u,
                                  resume_url = [], resume_text = [], seeker_created_at = now\<rparr>
                         in (s, d\<lparr>seekers := seekers d @ [s]\<rparr>))
                    | Some s \<Rightarrow> (s, d))
             in case data_job vd of
                  None \<Rightarrow> (Inl (PermissionDenied ''This job is not available.''), d1)
                | Some j \<Rightarrow>
                    if \<not> job_is_active j then (Inl (PermissionDenied ''This job is not available.''), d1)
                    else if application_exists d1 (job_id j) (seeker_id seeker) then
                      (Inl (PermissionDenied ''You have already applied to this job.''), d1)
                    else
                      (Inr (),
                       d1\<lparr>applications := applications d1 @
                            [\<lparr>application_id = next_pk (map application_id (applications d1)),
                              application_job = job_id j,
                              application_seeker = seeker_id seeker,
                              application_status = (case data_status vd of None \<Rightarrow> PENDING | Some st \<Rightarrow> st),
                              match_score = None,
                              application_created_at = now\<rparr>]\<rparr>)))"

subsection \<open>ApplicationRetrieveUpdateView\<close>

text \<open>
  The view's \<open>get_object\<close>: the inherited lookup of the key in
  \<^verbatim>\<open>Application.objects.select_related('job__employer', 'seeker__user')\<close>, which joins the row
  to its job, employer, seeker and user and raises 404 when there is none, and then the
  check that the caller is the provider who owns the job.
\<close>

definition super_get_object_application :: "db \<Rightarrow> nat \<Rightarrow> error + (application \<times> job)" where
  "super_get_object_application d pk =
     (case find (\<lambda>a. application_id a = pk) (applications d) of
        None \<Rightarrow> Inl Http404
      | Some a \<Rightarrow>
          (case find (\<lambda>j. job_id j = application_job a) (jobs d) of
             None \<Rightarrow> Inl Http404
           | Some j \<Rightarrow>
               (case find (\<lambda>e. employer_id e = job_employer j) (employers d) of
                  None \<Rightarrow> Inl Http404
                | Some e \<Rightarrow>
                    (case find (\<lambda>s. seeker_id s = application_seeker a) (seekers d) of
                       None \<Rightarrow> Inl Http404
                     | Some s \<Rightarrow>
                         (case find (\<lambda>u. user_id u = seeker_user s) (users d) of
                            None \<Rightarrow> Inl Http404
                          | Some u \<Rightarrow> Inr (a, j))))))"

definition get_object_application :: "db \<Rightarrow> request \<Rightarrow> nat \<Rightarrow> error + application" where
  "get_object_application d req pk =
     (case super_get_object_application d pk of
        Inl e \<Rightarrow> Inl e
      | Inr (obj, j) \<Rightarrow>
          (case request_user req of
             None \<Rightarrow> Inl (PermissionDenied ''Not allowed.'')
           | Some u \<Rightarrow>
               if role u \<noteq> ''provider'' then Inl (PermissionDenied ''Not allowed.'')
               else
                 (case employer_profile d u of
                    None \<Rightarrow> Inl (PermissionDenied ''Not allowed.'')
                  | Some emp \<Rightarrow>
                      if job_employer j \<noteq> employer_id emp then Inl (PermissionDenied ''Not allowed.'')
                      else Inr obj)))"

text \<open>
  The view inherits its update (PUT and PATCH) from the generic view: the object of
  \<open>get_object\<close> takes the validated fields of \<^verbatim>\<open>ApplicationSerializer\<close> and is saved. The
  writable fields are the same as on creation, \<open>job\<close> and \<open>status\<close>; the view adds no check of
  its own, and the model declares no unique constraint on job and seeker.
\<close>

definition update_application ::
  "db \<Rightarrow> request \<Rightarrow> nat \<Rightarrow> application_data \<Rightarrow> (error + unit) \<times> db" where
  "update_application d req pk vd =
     (case get_object_application d req pk of
        Inl e \<Rightarrow> (Inl e, d)
      | Inr obj \<Rightarrow>
          (Inr (),
           d\<lparr>applications :=
               map (\<lambda>a. if application_id a = application_id obj
                         then a\<lparr>application_job :=
                                  (case data_job vd of None \<Rightarrow> application_job a | Some j \<Rightarrow> job_id j),
                                application_status :=
                                  (case data_status vd of None \<Rightarrow> application_status a | Some st \<Rightarrow> st)\<rparr>
                         else a)
                   (applications d)\<rparr>))"

subsection \<open>InterviewListCreateView.perform\_create\<close>

record interview_data =
  data_title :: string
  data_date :: nat
  data_time :: nat

text \<open>
  \<^verbatim>\<open>Application.objects.select_related('job__employer').get(pk=...)\<close>: the row with that
  key, joined to its job and the job's employer; \<open>None\<close> is \<^verbatim>\<open>DoesNotExist\<close>.
\<close>

definition get_application :: "db \<Rightarrow> int \<Rightarrow> (application \<times> job) option" where
  "get_application d n =
     (case find (\<lambda>a. int (application_id a) = n) (applications d) of
        None \<Rightarrow> None
      | Some a \<Rightarrow>
          (case find (\<lambda>j. job_id j = application_job a) (jobs d) of
             None \<Rightarrow> None
           | Some j \<Rightarrow>
               (case find (\<lambda>e. employer_id e = job_employer j) (employers d) of
                  None \<Rightarrow> None
                | Some e \<Rightarrow> Some (a, j))))"

text \<open>
  \<^verbatim>\<open>Appointment.objects.update_or_create(application=app, defaults=...)\<close>: no row for the
  application creates one, one row is updated in place, several rows raise.
\<close>

definition appointments_for :: "db \<Rightarrow> nat \<Rightarrow> appointment list" where
  "appointments_for d app = filter (\<lambda>p. appointment_application p = app) (appointments d)"

definition update_or_create_appointment ::
  "nat \<Rightarrow> db \<Rightarrow> nat \<Rightarrow> string \<Rightarrow> nat \<Rightarrow> nat \<Rightarrow> string \<Rightarrow> (error + unit) \<times> db" where
  "update_or_create_appointment now d app ttl dt tm content =
     (case appointments_for d app of
        [] \<Rightarrow>
          (Inr (),
           d\<lparr>appointments := appointments d @
               [\<lparr>appointment_id = next_pk (map appointment_id (appointments d)),
                 appointment_application = app,
                 appointment_title = ttl,
                 appointment_time = tm,
                 appointment_date = dt,
                 appointment_content = content,
                 appointment_created_at = now\<rparr>]\<rparr>)
      | [p] \<Rightarrow>
          (Inr (),
           d\<lparr>appointments :=
               map (\<lambda>q. if appointment_id q = appointment_id p
                         then q\<lparr>appointment_title := ttl, appointment_date := dt,
                                appointment_time := tm, appointment_content := content\<rparr>
                         else q)
                   (appointments d)\<rparr>)
      | _ \<Rightarrow> (Inl MultipleObjectsReturned, d))"

definition perform_create_interview ::
  "python \<Rightarrow> nat \<Rightarrow> db \<Rightarrow> request \<Rightarrow> interview_data \<Rightarrow> (error + unit) \<times> db" where
  "perform_create_interview py now d req vd =
     (case request_user req of
        None \<Rightarrow> (Inl (PermissionDenied ''Only providers can schedule interviews.''), d)
      | Some u \<Rightarrow>
          (case employer_profile d u of
             None \<Rightarrow> (Inl (PermissionDenied ''Only providers can schedule interviews.''), d)
           | Some emp \<Rightarrow>
               if role u \<noteq> ''provider'' then
                 (Inl (PermissionDenied ''Only providers can schedule interviews.''), d)
               else
                 (case pk_lookup_value py (dict_get (request_data req) ''application'') of
                    Inl e \<Rightarrow> (Inl e, d)
                  | Inr n \<Rightarrow>
                      (case get_application d n of
                         None \<Rightarrow> (Inl (PermissionDenied ''Invalid application.''), d)
                       | Some (app, j) \<Rightarrow>
                           if job_employer j \<noteq> employer_id emp then (Inl (PermissionDenied ''Not allowed.''), d)
                           else
                             (let iv = \<lparr>interview_id = next_pk (map interview_id (interviews d)),
                                        interview_application = application_id app,
                                        interview_title = data_title vd,
                                        interview_date = data_date vd,
                                        interview_time = data_time vd,
                                        interview_created_at = now\<rparr>;
                                  d1 = d\<lparr>interviews := interviews d @ [iv]\<rparr>
                              in update_or_create_appointment now d1 (application_id app)
                                   (interview_title iv) (interview_date iv) (interview_time iv)
                                   (''Interview: '' @ interview_title iv))))))"

subsection \<open>JobRetrieveUpdateDestroyView.get\_object\<close>

text \<open>
  The inherited \<^verbatim>\<open>get_object\<close> of the generic view looks the key of the URL up in
  \<^verbatim>\<open>Job.objects.all()\<close> and raises 404 when no row has it. The view's own method returns
  the object on one path only; every other path reaches the end of the function, which in
  Python returns \<^verbatim>\<open>None\<close>.
\<close>

definition super_get_object :: "db \<Rightarrow> nat \<Rightarrow> error + job" where
  "super_get_object d pk = (case find (\<lambda>j. job_id j = pk) (jobs d) of None \<Rightarrow> Inl Http404 | Some j \<Rightarrow> Inr j)"

definition get_object :: "db \<Rightarrow> request \<Rightarrow> nat \<Rightarrow> error + job option" where
  "get_object d req pk =
     (case super_get_object d pk of
        Inl e \<Rightarrow> Inl e
      | Inr obj \<Rightarrow>
          if request_method req \<in> set [''GET''] then
            (if job_is_active obj then Inr (Some obj) else Inr None)
          else Inr None)"

subsection \<open>AdminUserRetrieveUpdateDestroyView.destroy\<close>

text \<open>
  The view is open to staff only (\<^verbatim>\<open>IsAdminUser\<close>), which the framework checks before it
  calls the method. \<^verbatim>\<open>save(update_fields=['is_active'])\<close> writes that one column of the row.
\<close>

definition is_admin_user :: "request \<Rightarrow> bool" where
  "is_admin_user req = (case request_user req of None \<Rightarrow> False | Some u \<Rightarrow> is_staff u)"

definition destroy :: "db \<Rightarrow> nat \<Rightarrow> (error + response) \<times> db" where
  "destroy d pk =
     (case find (\<lambda>u. user_id u = pk) (users d) of
        None \<Rightarrow> (Inl Http404, d)
      | Some instance \<Rightarrow>
          (Inr \<lparr>response_status = 204, response_body = NoContent\<rparr>,
           d\<lparr>users := map (\<lambda>u. if user_id u = user_id instance then u\<lparr>user_is_active := False\<rparr> else u)
                           (users d)\<rparr>))"


subsection \<open>Sequences of requests\<close>

text \<open>
  The uniqueness of applications is a property of the stores the views can reach. A store has
  unique pairs when no two applications share job and seeker. The requests that write the
  store without going through the update of an application are the creation of an application,
  the creation of an interview and the administrator's delete of a user; \<open>run\<close> serves a
  sequence of them, each on the store the one before left.
\<close>

definition unique_pairs :: "db \<Rightarrow> bool" where
  "unique_pairs d = distinct (map (\<lambda>a. (application_job a, application_seeker a)) (applications d))"

datatype action =
    Apply nat request application_data
  | Schedule nat request interview_data
  | Deactivate nat

fun step :: "python \<Rightarrow> db \<Rightarrow> action \<Rightarrow> db" where
  "step py d (Apply now req vd) = snd (perform_create_application now d req vd)"
| "step py d (Schedule now req vd) = snd (perform_create_interview py now d req vd)"
| "step py d (Deactivate pk) = snd (destroy d pk)"

definition run :: "python \<Rightarrow> db \<Rightarrow> action list \<Rightarrow> db" where
  "run py d acts = foldl (step py) d acts"

section \<open>Worked examples\<close>

text \<open>
  An interpreter for the examples: the decoder above and a network that answers the request
  with a given outcome. The examples pass integers as limits and no resume in the request, so
  the other functions are applied to the empty string or not at all.
\<close>

definition example_python :: "(error + http_reply) \<Rightarrow> python" where
  "example_python outcome =
     \<lparr>loads = json_loads,
      dumps = (\<lambda>v. []),
      int_of_str = (\<lambda>s. Inl ValueError),
      str_strip = (\<lambda>s. s),
      get_prep_value = (\<lambda>v. Inl TypeError),
      requests_post = (\<lambda>m. outcome)\<rparr>"

text \<open>A successful reply of the model endpoint whose first choice carries the given content.\<close>

definition openrouter_reply :: "json \<Rightarrow> error + http_reply" where
  "openrouter_reply content =
     Inr \<lparr>status_code = 200,
          reply_json = Inr (JObj [(''choices'', JArr [JObj [(''message'', JObj [(''content'', content)])]])])\<rparr>"

definition sure_reply :: string where
  \<open>sure_reply = ''Sure! {"best_job_id": 2, "score": 91, "reason": "skills match"}''\<close>

definition cannot_reply :: string where
  "cannot_reply = ''I cannot help with that.''"

definition example_user :: "nat \<Rightarrow> string \<Rightarrow> bool \<Rightarrow> custom_user" where
  "example_user i r staff =
     \<lparr>user_id = i, email = ''user@example.org'', first_name = ''A'', last_name = ''B'', phone = None,
      gender = None, dob = None, role = r, accept_terms = True, newsletter = False,
      user_is_active = True, is_staff = staff, is_superuser = False\<rparr>"

definition example_job :: "nat \<Rightarrow> bool \<Rightarrow> job" where
  "example_job i active =
     \<lparr>job_id = i, job_employer = 1, job_title = ''Backend Eng'', description = ''APIs'',
      requirement = ''Python'', salary = None, location = ''Douala'', job_created_at = i,
      job_is_active = active\<rparr>"

text \<open>
  A store with a seeker (user 1), a provider (user 2) who owns every job, an administrator
  (user 3), six active jobs created in the order of their keys and an inactive seventh, one
  application (of seeker 1 to job 2) and one payment.
\<close>

definition example_db :: db where
  "example_db =
     \<lparr>users = [example_user 1 ''seeker'' False, example_user 2 ''provider'' False,
               example_user 3 ''provider'' True],
      employers = [\<lparr>employer_id = 1, employer_user = 2, company_name = ''Gabana'',
                    company_website = [], employer_created_at = 0\<rparr>],
      seekers = [\<lparr>seeker_id = 1, seeker_user = 1, resume_url = [], resume_text = ''Python developer'',
                  seeker_created_at = 0\<rparr>],
      jobs = [example_job 1 True, example_job 2 True, example_job 3 True, example_job 4 True,
              example_job 5 True, example_job 6 True, example_job 7 False],
      applications = [\<lparr>application_id = 1, application_job = 2, application_seeker = 1,
                       application_status = PENDING, match_score = None, application_created_at = 8\<rparr>],
      interviews = [],
      appointments = [],
      payments = [\<lparr>payment_id = 1, payment_user = 1, payment_time = 0, payment_date = 0, amount = 5,
                   payment_method = ''MOMO'', payment_created_at = 9\<rparr>]\<rparr>"

definition empty_db :: db where
  "empty_db = \<lparr>users = [], employers = [], seekers = [], jobs = [], applications = [],
               interviews = [], appointments = [], payments = []\<rparr>"

definition example_request :: "custom_user option \<Rightarrow> string \<Rightarrow> (string \<times> json) list \<Rightarrow> request" where
  "example_request u m dat = \<lparr>request_user = u, request_method = m, request_data = dat\<rparr>"

definition id1_reply :: string where
  \<open>id1_reply = ''{"best_job_id": 1, "score": 50, "reason": "oldest"}''\<close>

section \<open>Strings: find, rfind and the slice between them\<close>

lemma str_find_takeWhile:
  "str_find s c = (if c \<in> set s then int (length (takeWhile (\<lambda>x. x \<noteq> c) s)) else - 1)"
  by (induction s) (auto simp: Let_def)

lemma str_find_nonneg: "str_find s c \<noteq> - 1 \<longleftrightarrow> c \<in> set s"
  by (simp add: str_find_takeWhile)

lemma str_rfind_takeWhile:
  "str_rfind s c = (if c \<in> set s then int (length s) - 1 - int (length (takeWhile (\<lambda>x. x \<noteq> c) (rev s))) else - 1)"
  by (simp add: str_rfind_def str_find_takeWhile Let_def)

lemma length_takeWhile_less: "c \<in> set s \<Longrightarrow> length (takeWhile (\<lambda>x. x \<noteq> c) s) < length s"
  by (induction s) auto

lemma drop_takeWhile_length: "drop (length (takeWhile P s)) s = dropWhile P s"
  by (induction s) auto

lemma rev_dropWhile_rev: "rev (dropWhile P (rev t)) = take (length t - length (takeWhile P (rev t))) t"
proof -
  have "rev t = takeWhile P (rev t) @ dropWhile P (rev t)" by simp
  then have "t = rev (dropWhile P (rev t)) @ rev (takeWhile P (rev t))"
    by (metis rev_append rev_rev_ident)
  then have "take (length (rev (dropWhile P (rev t)))) t = rev (dropWhile P (rev t))"
    by (metis append_eq_conv_conj)
  moreover have "length (rev (dropWhile P (rev t))) = length t - length (takeWhile P (rev t))"
    by (metis length_rev length_append takeWhile_dropWhile_id add_diff_cancel_left')
  ultimately show ?thesis by simp
qed

lemma takeWhile_rev_suffix:
  assumes "c \<in> set t"
  shows "takeWhile (\<lambda>x. x \<noteq> c) (rev (p @ t)) = takeWhile (\<lambda>x. x \<noteq> c) (rev t)"
  using assms by (simp add: takeWhile_append1)

lemma dropWhile_hd: "dropWhile P s \<noteq> [] \<Longrightarrow> \<not> P (hd (dropWhile P s))"
  by (simp add: hd_dropWhile)

lemma span_condition_if:
  assumes "has_brace_span s"
  shows "str_find s (CHR ''{'') \<noteq> - 1 \<and> str_rfind s (CHR ''}'') \<noteq> - 1 \<and> str_rfind s (CHR ''}'') > str_find s (CHR ''{'')"
proof -
  define t where "t = dropWhile (\<lambda>c. c \<noteq> CHR ''{'') s"
  define a where "a = length (takeWhile (\<lambda>c. c \<noteq> CHR ''{'') s)"
  define k where "k = length (takeWhile (\<lambda>c. c \<noteq> CHR ''}'') (rev t))"
  have mem: "CHR ''}'' \<in> set t" using assms by (simp add: has_brace_span_def t_def)
  have s_eq: "s = takeWhile (\<lambda>c. c \<noteq> CHR ''{'') s @ t" by (simp add: t_def)
  have len: "length s = a + length t" unfolding a_def t_def
    by (metis length_append takeWhile_dropWhile_id)
  have tne: "t \<noteq> []" using mem by auto
  have hd_t: "hd t = CHR ''{''" using dropWhile_hd[of "\<lambda>c. c \<noteq> CHR ''{''" s] tne by (simp add: t_def)
  have in1: "CHR ''{'' \<in> set s" using tne hd_t s_eq
    by (metis Un_iff hd_in_set set_append)
  have in2: "CHR ''}'' \<in> set s" using mem s_eq by (metis Un_iff set_append)
  have k_eq: "length (takeWhile (\<lambda>c. c \<noteq> CHR ''}'') (rev s)) = k"
    unfolding k_def using takeWhile_rev_suffix[OF mem, of "takeWhile (\<lambda>c. c \<noteq> CHR ''{'') s"] s_eq by metis
  have k_lt: "k < length t" unfolding k_def using length_takeWhile_less[of "CHR ''}''" "rev t"] mem by simp
  have nth_k: "rev t ! k = CHR ''}''"
    using nth_length_takeWhile[of "\<lambda>c. c \<noteq> CHR ''}''" "rev t"] k_lt by (simp add: k_def)
  have "k \<noteq> length t - 1"
  proof
    assume "k = length t - 1"
    then have "rev t ! k = hd t" using tne by (simp add: rev_nth hd_conv_nth)
    then show False using nth_k hd_t by simp
  qed
  then have "k + 1 < length t" using k_lt by simp
  then show ?thesis
    using in1 in2 k_eq len by (simp add: str_find_takeWhile str_rfind_takeWhile a_def)
qed

lemma span_condition_only_if:
  assumes "str_find s (CHR ''{'') \<noteq> - 1" "str_rfind s (CHR ''}'') \<noteq> - 1"
    "str_rfind s (CHR ''}'') > str_find s (CHR ''{'')"
  shows "has_brace_span s"
proof -
  define a where "a = length (takeWhile (\<lambda>c. c \<noteq> CHR ''{'') s)"
  define k where "k = length (takeWhile (\<lambda>c. c \<noteq> CHR ''}'') (rev s))"
  have in1: "CHR ''{'' \<in> set s" using assms(1) by (simp add: str_find_takeWhile split: if_splits)
  have in2: "CHR ''}'' \<in> set s" using assms(2) by (simp add: str_rfind_takeWhile split: if_splits)
  have k_lt: "k < length s" unfolding k_def using length_takeWhile_less[of "CHR ''}''" "rev s"] in2 by simp
  have nth_k: "rev s ! k = CHR ''}''"
    using nth_length_takeWhile[of "\<lambda>c. c \<noteq> CHR ''}''" "rev s"] k_lt by (simp add: k_def)
  have gt: "int a < int (length s) - 1 - int k"
    using assms(3) in1 in2 by (simp add: str_find_takeWhile str_rfind_takeWhile a_def k_def)
  define e where "e = length s - 1 - k"
  have e1: "a < e" "e < length s" using gt k_lt by (auto simp: e_def)
  have "s ! e = CHR ''}''" using nth_k k_lt by (simp add: rev_nth e_def)
  moreover have "s ! e = drop a s ! (e - a)" using e1 by simp
  moreover have "e - a < length (drop a s)" using e1 by simp
  ultimately have "CHR ''}'' \<in> set (drop a s)" by (metis nth_mem)
  then show ?thesis by (simp add: has_brace_span_def a_def drop_takeWhile_length)
qed

lemma span_slice:
  assumes "has_brace_span s"
  shows "str_slice s (str_find s (CHR ''{'')) (str_rfind s (CHR ''}'') + 1) = first_to_last_brace s"
proof -
  define t where "t = dropWhile (\<lambda>c. c \<noteq> CHR ''{'') s"
  define a where "a = length (takeWhile (\<lambda>c. c \<noteq> CHR ''{'') s)"
  define k where "k = length (takeWhile (\<lambda>c. c \<noteq> CHR ''}'') (rev t))"
  have mem: "CHR ''}'' \<in> set t" using assms by (simp add: has_brace_span_def t_def)
  have s_eq: "s = takeWhile (\<lambda>c. c \<noteq> CHR ''{'') s @ t" by (simp add: t_def)
  have len: "length s = a + length t" unfolding a_def t_def
    by (metis length_append takeWhile_dropWhile_id)
  have k_eq: "length (takeWhile (\<lambda>c. c \<noteq> CHR ''}'') (rev s)) = k"
    unfolding k_def using takeWhile_rev_suffix[OF mem, of "takeWhile (\<lambda>c. c \<noteq> CHR ''{'') s"] s_eq by metis
  have k_lt: "k < length t" unfolding k_def using length_takeWhile_less[of "CHR ''}''" "rev t"] mem by simp
  have cond: "str_find s (CHR ''{'') \<noteq> - 1 \<and> str_rfind s (CHR ''}'') \<noteq> - 1"
    using span_condition_if[OF assms] by simp
  then have in1: "CHR ''{'' \<in> set s" and in2: "CHR ''}'' \<in> set s"
    by (auto simp: str_find_takeWhile str_rfind_takeWhile split: if_splits)
  have f: "str_find s (CHR ''{'') = int a" using in1 by (simp add: str_find_takeWhile a_def)
  have r: "str_rfind s (CHR ''}'') + 1 = int (length s - k)"
    using in2 k_eq k_lt len by (simp add: str_rfind_takeWhile)
  have b1: "slice_bound (length s) (int a) = a" using len by (simp add: slice_bound_def)
  have b2: "slice_bound (length s) (int (length s - k)) = length s - k" by (simp add: slice_bound_def)
  have "str_slice s (int a) (int (length s - k)) = take (length s - k - a) (drop a s)"
    unfolding str_slice_def Let_def b1 b2 by simp
  also have "drop a s = t" by (simp add: a_def t_def drop_takeWhile_length)
  also have "length s - k - a = length t - k" using len by simp
  also have "take (length t - k) t = rev (dropWhile (\<lambda>c. c \<noteq> CHR ''}'') (rev t))"
    by (simp add: rev_dropWhile_rev k_def)
  finally show ?thesis by (simp add: f r first_to_last_brace_def t_def)
qed

lemma span_condition:
  "(str_find s (CHR ''{'') \<noteq> - 1 \<and> str_rfind s (CHR ''}'') \<noteq> - 1 \<and> str_rfind s (CHR ''}'') > str_find s (CHR ''{''))
     \<longleftrightarrow> has_brace_span s"
  using span_condition_if span_condition_only_if by blast

lemma sure_reply_not_json: "json_loads sure_reply = None"
  unfolding sure_reply_def by code_simp

lemma sure_reply_span:
  \<open>first_to_last_brace sure_reply = ''{"best_job_id": 2, "score": 91, "reason": "skills match"}''\<close>
  unfolding sure_reply_def by code_simp

lemma sure_reply_has_span: "has_brace_span sure_reply"
  unfolding sure_reply_def by code_simp

lemma sure_reply_span_json:
  \<open>json_loads ''{"best_job_id": 2, "score": 91, "reason": "skills match"}'' =
     Some (JObj [(''best_job_id'', JInt 2), (''score'', JInt 91), (''reason'', JStr ''skills match'')])\<close>
  by code_simp

lemma cannot_reply_not_json: "json_loads cannot_reply = None"
  unfolding cannot_reply_def by code_simp

lemma cannot_reply_no_span: "\<not> has_brace_span cannot_reply"
  unfolding cannot_reply_def by code_simp

section \<open>The parse of the model's reply\<close>

lemma parse_best_job_json_str:
  "parse_best_job_json py (JStr s) =
     (case loads py s of
        Some v \<Rightarrow> Inr v
      | None \<Rightarrow>
          if has_brace_span s then
            (case loads py (first_to_last_brace s) of Some v \<Rightarrow> Inr v | None \<Rightarrow> Inr JNull)
          else Inr JNull)"
proof (cases "has_brace_span s")
  case True
  then show ?thesis
    using span_condition_if[OF True] span_slice[OF True]
    by (simp add: parse_best_job_json_def Let_def split: option.splits)
next
  case False
  then have "\<not> (str_find s (CHR ''{'') \<noteq> - 1 \<and> str_rfind s (CHR ''}'') \<noteq> - 1
      \<and> str_rfind s (CHR ''}'') > str_find s (CHR ''{''))"
    using span_condition by blast
  with False show ?thesis
    by (auto simp add: parse_best_job_json_def Let_def split: option.splits)
qed

lemma structured_result_of_dict:
  "parse_best_job_json py r = Inr (JObj kvs) \<Longrightarrow> kvs \<noteq> [] \<Longrightarrow>
   structured_result py r =
     Inr \<lparr>best_job_id = dict_get kvs ''best_job_id'', score = dict_get kvs ''score'',
          reason = dict_get kvs ''reason'', raw = r\<rparr>"
  by (simp add: structured_result_def py_or_def)

lemma structured_result_of_falsy:
  "parse_best_job_json py r = Inr p \<Longrightarrow> \<not> truthy p \<Longrightarrow>
   structured_result py r = Inr \<lparr>best_job_id = JNull, score = JNull, reason = JNull, raw = r\<rparr>"
  by (simp add: structured_result_def py_or_def dict_get_def)

lemma structured_sure_reply:
  "structured_result (example_python outcome) (JStr sure_reply) =
     Inr \<lparr>best_job_id = JInt 2, score = JInt 91, reason = JStr ''skills match'', raw = JStr sure_reply\<rparr>"
proof -
  have "parse_best_job_json (example_python outcome) (JStr sure_reply) =
      Inr (JObj [(''best_job_id'', JInt 2), (''score'', JInt 91), (''reason'', JStr ''skills match'')])"
    by (simp add: parse_best_job_json_str example_python_def sure_reply_not_json sure_reply_has_span
        sure_reply_span sure_reply_span_json)
  then show ?thesis
    by (simp add: structured_result_of_dict dict_get_def)
qed

text \<open>
  C5. The parse of a reply first decodes the whole string; when that fails it decodes exactly
  the text from the first \<^verbatim>\<open>{\<close> to the last \<^verbatim>\<open>}\<close>, when there is one. The reply
  \<^verbatim>\<open>Sure! {"best_job_id": 2, "score": 91, "reason": "skills match"}\<close> yields the id 2 and
  the score 91. When both attempts fail, the structured result holds \<^verbatim>\<open>None\<close> three times.
\<close>

theorem parse_whole_then_first_to_last_brace:
  "parse_best_job_json py (JStr s) =
     (case loads py s of
        Some v \<Rightarrow> Inr v
      | None \<Rightarrow>
          if has_brace_span s then
            (case loads py (first_to_last_brace s) of Some v \<Rightarrow> Inr v | None \<Rightarrow> Inr JNull)
          else Inr JNull)
   \<and> structured_result (example_python outcome) (JStr sure_reply) =
       Inr \<lparr>best_job_id = JInt 2, score = JInt 91, reason = JStr ''skills match'', raw = JStr sure_reply\<rparr>
   \<and> (loads py t = None \<and> (has_brace_span t \<longrightarrow> loads py (first_to_last_brace t) = None) \<longrightarrow>
        structured_result py (JStr t) =
          Inr \<lparr>best_job_id = JNull, score = JNull, reason = JNull, raw = JStr t\<rparr>)"
proof (intro conjI impI)
  show "parse_best_job_json py (JStr s) =
     (case loads py s of
        Some v \<Rightarrow> Inr v
      | None \<Rightarrow>
          if has_brace_span s then
            (case loads py (first_to_last_brace s) of Some v \<Rightarrow> Inr v | None \<Rightarrow> Inr JNull)
          else Inr JNull)"
    by (rule parse_best_job_json_str)
next
  show "structured_result (example_python outcome) (JStr sure_reply) =
       Inr \<lparr>best_job_id = JInt 2, score = JInt 91, reason = JStr ''skills match'', raw = JStr sure_reply\<rparr>"
    by (rule structured_sure_reply)
next
  assume h: "loads py t = None \<and> (has_brace_span t \<longrightarrow> loads py (first_to_last_brace t) = None)"
  then have "parse_best_job_json py (JStr t) = Inr JNull"
    by (simp add: parse_best_job_json_str)
  then show "structured_result py (JStr t) =
          Inr \<lparr>best_job_id = JNull, score = JNull, reason = JNull, raw = JStr t\<rparr>"
    by (simp add: structured_result_of_falsy)
qed

theorem parse_whole_then_first_to_last_brace_witness:
  "loads (example_python (openrouter_reply (JStr cannot_reply))) cannot_reply = None
   \<and> \<not> has_brace_span cannot_reply
   \<and> structured_result (example_python (openrouter_reply (JStr cannot_reply))) (JStr cannot_reply) =
       Inr \<lparr>best_job_id = JNull, score = JNull, reason = JNull, raw = JStr cannot_reply\<rparr>"
proof -
  have a: "loads (example_python (openrouter_reply (JStr cannot_reply))) cannot_reply = None"
    by (simp add: example_python_def cannot_reply_not_json)
  have b: "\<not> has_brace_span cannot_reply" by (rule cannot_reply_no_span)
  show ?thesis
    using a b parse_whole_then_first_to_last_brace
      [of "example_python (openrouter_reply (JStr cannot_reply))" cannot_reply _ cannot_reply]
    by simp
qed


section \<open>The recommendation endpoint\<close>

lemma example_jobs_qs_25:
  "jobs_qs example_db 25 = Inr [example_job 6 True, example_job 5 True, example_job 4 True,
     example_job 3 True, example_job 2 True, example_job 1 True]"
  by (simp add: jobs_qs_def active_jobs_def example_db_def example_job_def)

lemma example_jobs_qs_1:
  "jobs_qs example_db 1 = Inr [example_job 6 True, example_job 5 True, example_job 4 True,
     example_job 3 True, example_job 2 True]"
  by (simp add: jobs_qs_def active_jobs_def example_db_def example_job_def)

lemma five_json: "json_loads ''5'' = Some (JInt 5)"
  by code_simp

lemma array_json: "json_loads ''[1]'' = Some (JArr [JInt 1])"
  by code_simp

lemma id1_reply_json:
  "json_loads id1_reply = Some (JObj [(''best_job_id'', JInt 1), (''score'', JInt 50), (''reason'', JStr ''oldest'')])"
  unfolding id1_reply_def by code_simp

lemma call_openrouter_example:
  "call_openrouter (example_python (openrouter_reply c)) msgs = Inr (py_or c (JStr []))"
  by (simp add: call_openrouter_def example_python_def openrouter_reply_def raise_for_status_def)

lemma active_job_by_pk_Some:
  "active_job_by_pk d n = Some j \<Longrightarrow> j \<in> set (jobs d) \<and> job_is_active j \<and> int (job_id j) = n"
  by (auto simp: active_job_by_pk_def find_Some_iff)

lemma set_jobs_qs:
  "jobs_qs d limit = Inr qs \<Longrightarrow> j \<in> set qs \<Longrightarrow> j \<in> set (jobs d) \<and> job_is_active j"
  by (auto simp: jobs_qs_def active_jobs_def split: if_splits dest!: in_set_takeD)

lemma jobs_qs_empty_iff:
  "jobs_qs d limit = Inr qs \<Longrightarrow> qs = [] \<longleftrightarrow> filter job_is_active (jobs d) = []"
proof -
  have "sort_key (\<lambda>j. - int (job_created_at j)) (filter job_is_active (jobs d)) = []
      \<longleftrightarrow> filter job_is_active (jobs d) = []"
    by (metis length_0_conv length_sort)
  then show "jobs_qs d limit = Inr qs \<Longrightarrow> qs = [] \<longleftrightarrow> filter job_is_active (jobs d) = []"
    by (auto simp: jobs_qs_def active_jobs_def take_eq_Nil max_def split: if_splits)
qed

lemma jobs_qs_in_range:
  "max 5 limit < 2 ^ 63 \<Longrightarrow> jobs_qs d limit = Inr (take (nat (max 5 limit)) (active_jobs d))"
  by (simp add: jobs_qs_def)

lemma jobs_qs_out_of_range: "2 ^ 63 \<le> limit \<Longrightarrow> jobs_qs d limit = Inl DatabaseError"
  by (simp add: jobs_qs_def max_def)

lemma post_after_recommend:
  assumes "request_resume_text py req = Inr r0" "request_limit py req = Inr limit"
    "jobs_qs d limit = Inr (j0 # js)"
    "recommend_best_job py (effective_resume d req r0) (map job_payload (j0 # js)) = Inr res"
  shows "post py d req =
     (case (if truthy (best_job_id res) then
              (case pk_lookup_value py (best_job_id res) of
                 Inl e \<Rightarrow> Inl e
               | Inr n \<Rightarrow> Inr (active_job_by_pk d n))
            else Inr None) of
        Inl e \<Rightarrow> Inl e
      | Inr (Some best_job) \<Rightarrow>
          Inr \<lparr>response_status = 200, response_body = Recommended (score res) (reason res) best_job\<rparr>
      | Inr None \<Rightarrow>
          Inr \<lparr>response_status = 200, response_body = Recommended (score res) (reason res) j0\<rparr>)"
  using assms by (simp add: post_def Let_def split: sum.splits option.splits)

lemma post_recommend_fails:
  assumes "request_resume_text py req = Inr r0" "request_limit py req = Inr limit"
    "jobs_qs d limit = Inr qs" "qs \<noteq> []"
    "recommend_best_job py (effective_resume d req r0) (map job_payload qs) = Inl e"
  shows "post py d req = Inl e"
  using assms by (simp add: post_def Let_def)

lemma post_no_jobs:
  assumes "request_resume_text py req = Inr r0" "request_limit py req = Inr limit"
    "jobs_qs d limit = Inr []"
  shows "post py d req = Inr \<lparr>response_status = 404, response_body = Detail ''No active jobs available.''\<rparr>"
  using assms by (simp add: post_def Let_def)

lemma example_request_ok:
  "request_resume_text (example_python out) (example_request u m []) = Inr []"
  "request_limit (example_python out) (example_request u m []) = Inr 25"
  "request_resume_text (example_python out) (example_request u m [(''limit'', JInt 1)]) = Inr []"
  "request_limit (example_python out) (example_request u m [(''limit'', JInt 1)]) = Inr 1"
  by (simp_all add: request_resume_text_def request_limit_def example_python_def example_request_def
      py_or_def dict_get_def)

lemma recommend_example:
  "recommend_best_job (example_python (openrouter_reply (JStr s))) resume payload =
     structured_result (example_python (openrouter_reply (JStr s))) (JStr s)"
  by (cases "s = []")
     (simp_all add: recommend_best_job_def call_openrouter_example py_or_def)

text \<open>
  C8. \<open>recommend_best_job\<close> is not total over the replies of the model: a reply that decodes to
  JSON that is not an object, such as \<^verbatim>\<open>5\<close> or \<^verbatim>\<open>[1]\<close>, passes \<^verbatim>\<open>or {}\<close> unchanged and
  the \<^verbatim>\<open>get\<close> that follows raises \<^verbatim>\<open>AttributeError\<close>.
\<close>

theorem recommend_best_job_raises_on_non_dict_json:
  "recommend_best_job (example_python (openrouter_reply (JStr ''5''))) [] [] = Inl AttributeError
   \<and> recommend_best_job (example_python (openrouter_reply (JStr ''[1]''))) [] [] = Inl AttributeError"
proof -
  have l5: "loads (example_python out) ''5'' = Some (JInt 5)" for out
    by (simp add: example_python_def five_json)
  have l1: "loads (example_python out) ''[1]'' = Some (JArr [JInt 1])" for out
    by (simp add: example_python_def array_json)
  show ?thesis
    unfolding recommend_example
    by (simp add: structured_result_def parse_best_job_json_str l5 l1 py_or_def)
qed

lemma post_cannot_reply_example:
  "post (example_python (openrouter_reply (JStr cannot_reply))) example_db
     (example_request (Some (example_user 1 ''seeker'' False)) ''POST'' []) =
     Inr \<lparr>response_status = 200, response_body = Recommended JNull JNull (example_job 6 True)\<rparr>"
proof -
  let ?py = "example_python (openrouter_reply (JStr cannot_reply))"
  let ?req = "example_request (Some (example_user 1 ''seeker'' False)) ''POST'' []"
  have l: "loads ?py cannot_reply = None" by (simp add: example_python_def cannot_reply_not_json)
  have "parse_best_job_json ?py (JStr cannot_reply) = Inr JNull"
    by (simp add: parse_best_job_json_str l cannot_reply_no_span)
  then have "recommend_best_job ?py (effective_resume example_db ?req [])
      (map job_payload (example_job 6 True # [example_job 5 True, example_job 4 True,
         example_job 3 True, example_job 2 True, example_job 1 True])) =
      Inr \<lparr>best_job_id = JNull, score = JNull, reason = JNull, raw = JStr cannot_reply\<rparr>"
    unfolding recommend_example by (rule structured_result_of_falsy) simp
  from post_after_recommend[OF example_request_ok(1) example_request_ok(2) example_jobs_qs_25 this]
  show ?thesis by simp
qed

text \<open>
  C2. When the request passes its two conversions, the fetched pool is not empty and the
  model's reply is a string that neither decodes as a whole nor between its first \<^verbatim>\<open>{\<close> and
  last \<^verbatim>\<open>}\<close>, the endpoint answers 200 with the first job of the pool and \<^verbatim>\<open>None\<close> for
  score and reason; no error is raised.
\<close>

theorem unparsable_reply_returns_first_job:
  assumes "request_resume_text py req = Inr r0" and "request_limit py req = Inr limit"
    and "jobs_qs d limit = Inr (j0 # js)"
    and "call_openrouter py (build_messages py (effective_resume d req r0)
           (map job_payload (j0 # js))) = Inr (JStr s)"
    and "loads py s = None"
    and "has_brace_span s \<longrightarrow> loads py (first_to_last_brace s) = None"
  shows "post py d req =
           Inr \<lparr>response_status = 200, response_body = Recommended JNull JNull j0\<rparr>"
proof -
  have p: "parse_best_job_json py (JStr s) = Inr JNull"
    using assms(5,6) by (simp add: parse_best_job_json_str)
  have "recommend_best_job py (effective_resume d req r0) (map job_payload (j0 # js)) =
      Inr \<lparr>best_job_id = JNull, score = JNull, reason = JNull, raw = JStr s\<rparr>"
    using assms(4) structured_result_of_falsy[OF p] by (simp add: recommend_best_job_def)
  from post_after_recommend[OF assms(1,2,3) this] show ?thesis by simp
qed

theorem unparsable_reply_returns_first_job_witness:
  "post (example_python (openrouter_reply (JStr cannot_reply))) example_db
     (example_request (Some (example_user 1 ''seeker'' False)) ''POST'' []) =
     Inr \<lparr>response_status = 200, response_body = Recommended JNull JNull (example_job 6 True)\<rparr>"
proof -
  let ?py = "example_python (openrouter_reply (JStr cannot_reply))"
  let ?req = "example_request (Some (example_user 1 ''seeker'' False)) ''POST'' []"
  have c: "call_openrouter ?py (build_messages ?py (effective_resume example_db ?req [])
           (map job_payload (example_job 6 True # [example_job 5 True, example_job 4 True,
              example_job 3 True, example_job 2 True, example_job 1 True]))) = Inr (JStr cannot_reply)"
    by (simp add: call_openrouter_example py_or_def cannot_reply_def)
  have l: "loads ?py cannot_reply = None" by (simp add: example_python_def cannot_reply_not_json)
  have h: "has_brace_span cannot_reply \<longrightarrow> loads ?py (first_to_last_brace cannot_reply) = None"
    by (simp add: cannot_reply_no_span)
  show ?thesis
    by (rule unparsable_reply_returns_first_job[OF example_request_ok(1) example_request_ok(2)
          example_jobs_qs_25 c l h])
qed

lemma post_200_job_active:
  assumes "post py d req = Inr \<lparr>response_status = 200, response_body = Recommended sc rs j\<rparr>"
  shows "j \<in> set (jobs d) \<and> job_is_active j"
proof -
  from assms obtain r0 limit qs res where
    a: "request_resume_text py req = Inr r0" "request_limit py req = Inr limit"
       "jobs_qs d limit = Inr qs" "qs \<noteq> []"
       "recommend_best_job py (effective_resume d req r0) (map job_payload qs) = Inr res"
    by (auto simp: post_def Let_def split: sum.splits if_splits)
  from a(4) obtain j0 js where q: "qs = j0 # js" by (cases qs) auto
  have j0: "j0 \<in> set (jobs d) \<and> job_is_active j0"
    using set_jobs_qs[OF a(3), of j0] q by simp
  from assms post_after_recommend[OF a(1,2) a(3)[unfolded q] a(5)[unfolded q]] show ?thesis
    using j0 by (auto split: sum.splits option.splits if_splits dest: active_job_by_pk_Some)
qed

text \<open>
  C1, as stated, fails: with six active jobs and a limit of 1 the pool holds the five latest
  jobs, and a reply naming the oldest job makes the endpoint return that job, which is not in
  the pool.
\<close>

theorem named_job_outside_pool_counterexample:
  "jobs_qs example_db 1 = Inr [example_job 6 True, example_job 5 True, example_job 4 True,
     example_job 3 True, example_job 2 True]
   \<and> example_job 1 True \<notin> set [example_job 6 True, example_job 5 True, example_job 4 True,
     example_job 3 True, example_job 2 True]
   \<and> post (example_python (openrouter_reply (JStr id1_reply))) example_db
        (example_request (Some (example_user 1 ''seeker'' False)) ''POST'' [(''limit'', JInt 1)]) =
      Inr \<lparr>response_status = 200,
           response_body = Recommended (JInt 50) (JStr ''oldest'') (example_job 1 True)\<rparr>"
proof -
  let ?py = "example_python (openrouter_reply (JStr id1_reply))"
  let ?req = "example_request (Some (example_user 1 ''seeker'' False)) ''POST'' [(''limit'', JInt 1)]"
  have l: "loads ?py id1_reply = Some (JObj [(''best_job_id'', JInt 1), (''score'', JInt 50), (''reason'', JStr ''oldest'')])"
    by (simp add: example_python_def id1_reply_json)
  have r: "recommend_best_job ?py (effective_resume example_db ?req [])
      (map job_payload (example_job 6 True # [example_job 5 True, example_job 4 True,
         example_job 3 True, example_job 2 True])) =
      Inr \<lparr>best_job_id = JInt 1, score = JInt 50, reason = JStr ''oldest'', raw = JStr id1_reply\<rparr>"
    unfolding recommend_example
    by (simp add: structured_result_def parse_best_job_json_str l py_or_def dict_get_def)
  have a: "active_job_by_pk example_db 1 = Some (example_job 1 True)"
    by (simp add: active_job_by_pk_def example_db_def example_job_def)
  have p: "post ?py example_db ?req =
      Inr \<lparr>response_status = 200,
           response_body = Recommended (JInt 50) (JStr ''oldest'') (example_job 1 True)\<rparr>"
    using post_after_recommend[OF example_request_ok(3) example_request_ok(4) example_jobs_qs_1 r]
    by (simp add: pk_lookup_value_def a)
  have n: "example_job 1 True \<notin> set [example_job 6 True, example_job 5 True, example_job 4 True,
     example_job 3 True, example_job 2 True]"
    by (simp add: example_job_def)
  show ?thesis by (intro conjI example_jobs_qs_1 n p)
qed

text \<open>
  C1, amended. Every job the endpoint returns with status 200 is an active job of the store.
  When the request passes its conversions, the pool is not empty, the call returned a structured
  result and its \<open>best_job_id\<close> is an integer or falsy, the endpoint returns the active job with
  that key, whether or not it is in the pool, and the first job of the pool when the id is
  falsy or the key of no active job.
\<close>

theorem post_returns_named_active_job_or_first:
  "(post py d req = Inr \<lparr>response_status = 200, response_body = Recommended sc rs j\<rparr> \<longrightarrow>
      j \<in> set (jobs d) \<and> job_is_active j)
   \<and> (request_resume_text py req = Inr r0 \<and> request_limit py req = Inr limit
        \<and> jobs_qs d limit = Inr (j0 # js)
        \<and> recommend_best_job py (effective_resume d req r0) (map job_payload (j0 # js)) = Inr res
        \<and> (best_job_id res = JInt n \<or> \<not> truthy (best_job_id res)) \<longrightarrow>
      post py d req =
        Inr \<lparr>response_status = 200,
             response_body = Recommended (score res) (reason res)
               (case (if truthy (best_job_id res) then active_job_by_pk d n else None) of
                  Some named \<Rightarrow> named
                | None \<Rightarrow> j0)\<rparr>)"
proof (rule conjI)
  show "post py d req = Inr \<lparr>response_status = 200, response_body = Recommended sc rs j\<rparr> \<longrightarrow>
      j \<in> set (jobs d) \<and> job_is_active j"
    using post_200_job_active by blast
next
  show "request_resume_text py req = Inr r0 \<and> request_limit py req = Inr limit
        \<and> jobs_qs d limit = Inr (j0 # js)
        \<and> recommend_best_job py (effective_resume d req r0) (map job_payload (j0 # js)) = Inr res
        \<and> (best_job_id res = JInt n \<or> \<not> truthy (best_job_id res)) \<longrightarrow>
      post py d req =
        Inr \<lparr>response_status = 200,
             response_body = Recommended (score res) (reason res)
               (case (if truthy (best_job_id res) then active_job_by_pk d n else None) of
                  Some named \<Rightarrow> named
                | None \<Rightarrow> j0)\<rparr>"
  proof
    assume h: "request_resume_text py req = Inr r0 \<and> request_limit py req = Inr limit
        \<and> jobs_qs d limit = Inr (j0 # js)
        \<and> recommend_best_job py (effective_resume d req r0) (map job_payload (j0 # js)) = Inr res
        \<and> (best_job_id res = JInt n \<or> \<not> truthy (best_job_id res))"
    then have a: "request_resume_text py req = Inr r0" "request_limit py req = Inr limit"
      "jobs_qs d limit = Inr (j0 # js)"
      "recommend_best_job py (effective_resume d req r0) (map job_payload (j0 # js)) = Inr res"
      and b: "best_job_id res = JInt n \<or> \<not> truthy (best_job_id res)"
      by blast+
    show "post py d req =
        Inr \<lparr>response_status = 200,
             response_body = Recommended (score res) (reason res)
               (case (if truthy (best_job_id res) then active_job_by_pk d n else None) of
                  Some named \<Rightarrow> named
                | None \<Rightarrow> j0)\<rparr>"
      using post_after_recommend[OF a] b
      by (auto simp: pk_lookup_value_def split: option.splits)
  qed
qed

theorem post_returns_named_active_job_or_first_witness:
  "post (example_python (openrouter_reply (JStr sure_reply))) example_db
     (example_request (Some (example_user 1 ''seeker'' False)) ''POST'' []) =
     Inr \<lparr>response_status = 200,
          response_body = Recommended (JInt 91) (JStr ''skills match'') (example_job 2 True)\<rparr>
   \<and> example_job 2 True \<in> set (jobs example_db) \<and> job_is_active (example_job 2 True)"
proof -
  let ?py = "example_python (openrouter_reply (JStr sure_reply))"
  let ?req = "example_request (Some (example_user 1 ''seeker'' False)) ''POST'' []"
  let ?res = "\<lparr>best_job_id = JInt 2, score = JInt 91, reason = JStr ''skills match'', raw = JStr sure_reply\<rparr>"
  let ?js = "[example_job 5 True, example_job 4 True, example_job 3 True, example_job 2 True,
              example_job 1 True]"
  have r: "recommend_best_job ?py (effective_resume example_db ?req [])
      (map job_payload (example_job 6 True # ?js)) = Inr ?res"
    unfolding recommend_example by (rule structured_sure_reply)
  have a: "active_job_by_pk example_db 2 = Some (example_job 2 True)"
    by (simp add: active_job_by_pk_def example_db_def example_job_def)
  have b: "best_job_id ?res = JInt 2 \<or> \<not> truthy (best_job_id ?res)" by simp
  have h: "request_resume_text ?py ?req = Inr [] \<and> request_limit ?py ?req = Inr 25
        \<and> jobs_qs example_db 25 = Inr (example_job 6 True # ?js)
        \<and> recommend_best_job ?py (effective_resume example_db ?req [])
             (map job_payload (example_job 6 True # ?js)) = Inr ?res
        \<and> (best_job_id ?res = JInt 2 \<or> \<not> truthy (best_job_id ?res))"
    by (intro conjI example_request_ok(1) example_request_ok(2) example_jobs_qs_25 r b)
  note t = post_returns_named_active_job_or_first[where py = ?py and d = example_db and req = ?req
      and sc = "JInt 91" and rs = "JStr ''skills match''" and j = "example_job 2 True"
      and ?r0.0 = "[]" and limit = 25 and ?j0.0 = "example_job 6 True" and js = ?js
      and res = ?res and n = 2]
  from mp[OF conjunct2[OF t] h] have p: "post ?py example_db ?req =
     Inr \<lparr>response_status = 200,
          response_body = Recommended (JInt 91) (JStr ''skills match'') (example_job 2 True)\<rparr>"
    by (simp add: a)
  from mp[OF conjunct1[OF t] p] p show ?thesis by blast
qed

lemma post_status:
  assumes "post py d req = Inr r" and "filter job_is_active (jobs d) \<noteq> []"
  shows "response_status r = 200"
proof -
  have ne: "jobs_qs d limit = Inr qs \<Longrightarrow> qs \<noteq> []" for limit qs
    using assms(2) jobs_qs_empty_iff by blast
  from assms(1) show ?thesis
    using ne by (auto simp: post_def Let_def split: sum.splits if_splits option.splits list.splits)
qed

lemma post_resume_conversion_fails:
  "request_resume_text py req = Inl e \<Longrightarrow> post py d req = Inl e"
  by (simp add: post_def)

lemma post_limit_conversion_fails:
  "request_resume_text py req = Inr r0 \<Longrightarrow> request_limit py req = Inl e \<Longrightarrow> post py d req = Inl e"
  by (simp add: post_def)

lemma post_limit_out_of_range:
  "request_resume_text py req = Inr r0 \<Longrightarrow> request_limit py req = Inr limit \<Longrightarrow> 2 ^ 63 \<le> limit \<Longrightarrow>
   post py d req = Inl DatabaseError"
  by (simp add: post_def Let_def jobs_qs_out_of_range)

text \<open>
  C6, as stated, fails: a request whose \<open>limit\<close> is a list makes \<^verbatim>\<open>int\<close> raise before the pool
  is fetched, so with no active job the endpoint raises \<^verbatim>\<open>TypeError\<close> and does not answer 404.
\<close>

theorem malformed_limit_counterexample:
  "filter job_is_active (jobs empty_db) = []
   \<and> post (example_python (openrouter_reply (JStr cannot_reply))) empty_db
        (example_request (Some (example_user 1 ''seeker'' False)) ''POST'' [(''limit'', JArr [JInt 1])]) = Inl TypeError"
  by (simp add: empty_db_def post_def request_resume_text_def request_limit_def example_python_def
      example_request_def py_or_def dict_get_def)

text \<open>
  C6, amended. For a request that passes its two conversions with a limit below \<open>2 ^ 63\<close>, no
  active job gives the 404 answer \<^verbatim>\<open>No active jobs available.\<close>. When an active job exists,
  every response the endpoint returns, for any request, has status 200. A request whose
  \<open>resume_text\<close> or \<open>limit\<close> fails its conversion raises that exception, and one whose limit is
  \<open>2 ^ 63\<close> or more raises when the pool is fetched, whatever the store holds.
\<close>

theorem not_found_iff_no_active_job:
  "(request_resume_text py req = Inr r0 \<and> request_limit py req = Inr limit \<and> limit < 2 ^ 63
      \<and> filter job_is_active (jobs d) = [] \<longrightarrow>
    post py d req = Inr \<lparr>response_status = 404, response_body = Detail ''No active jobs available.''\<rparr>)
   \<and> (filter job_is_active (jobs d') \<noteq> [] \<and> post py' d' req' = Inr r \<longrightarrow> response_status r = 200)
   \<and> (request_resume_text py1 req1 = Inl e1 \<longrightarrow> post py1 d1 req1 = Inl e1)
   \<and> (request_resume_text py2 req2 = Inr r2 \<and> request_limit py2 req2 = Inl e2 \<longrightarrow>
        post py2 d2 req2 = Inl e2)
   \<and> (request_resume_text py3 req3 = Inr r3 \<and> request_limit py3 req3 = Inr limit3 \<and> 2 ^ 63 \<le> limit3 \<longrightarrow>
        post py3 d3 req3 = Inl DatabaseError)"
proof (intro conjI)
  show "request_resume_text py req = Inr r0 \<and> request_limit py req = Inr limit \<and> limit < 2 ^ 63
      \<and> filter job_is_active (jobs d) = [] \<longrightarrow>
    post py d req = Inr \<lparr>response_status = 404, response_body = Detail ''No active jobs available.''\<rparr>"
  proof
    assume h: "request_resume_text py req = Inr r0 \<and> request_limit py req = Inr limit \<and> limit < 2 ^ 63
      \<and> filter job_is_active (jobs d) = []"
    then have "max 5 limit < 2 ^ 63" by (simp add: max_def)
    then have q: "jobs_qs d limit = Inr (take (nat (max 5 limit)) (active_jobs d))"
      by (rule jobs_qs_in_range)
    have "take (nat (max 5 limit)) (active_jobs d) = []"
      using jobs_qs_empty_iff[OF q] h by simp
    with q have "jobs_qs d limit = Inr []" by simp
    with h show "post py d req =
        Inr \<lparr>response_status = 404, response_body = Detail ''No active jobs available.''\<rparr>"
      using post_no_jobs by blast
  qed
next
  show "filter job_is_active (jobs d') \<noteq> [] \<and> post py' d' req' = Inr r \<longrightarrow> response_status r = 200"
    using post_status by blast
next
  show "request_resume_text py1 req1 = Inl e1 \<longrightarrow> post py1 d1 req1 = Inl e1"
    using post_resume_conversion_fails by blast
next
  show "request_resume_text py2 req2 = Inr r2 \<and> request_limit py2 req2 = Inl e2 \<longrightarrow>
        post py2 d2 req2 = Inl e2"
    using post_limit_conversion_fails by blast
next
  show "request_resume_text py3 req3 = Inr r3 \<and> request_limit py3 req3 = Inr limit3 \<and> 2 ^ 63 \<le> limit3 \<longrightarrow>
        post py3 d3 req3 = Inl DatabaseError"
    using post_limit_out_of_range by blast
qed

theorem not_found_iff_no_active_job_witness:
  "post (example_python (openrouter_reply (JStr cannot_reply))) empty_db
     (example_request (Some (example_user 1 ''seeker'' False)) ''POST'' []) =
     Inr \<lparr>response_status = 404, response_body = Detail ''No active jobs available.''\<rparr>
   \<and> (case post (example_python (openrouter_reply (JStr cannot_reply))) example_db
          (example_request (Some (example_user 1 ''seeker'' False)) ''POST'' []) of
        Inl e \<Rightarrow> False
      | Inr r \<Rightarrow> response_status r = 200)
   \<and> post (example_python (openrouter_reply (JStr cannot_reply))) example_db
        (example_request (Some (example_user 1 ''seeker'' False)) ''POST'' [(''resume_text'', JInt 5)]) =
      Inl AttributeError
   \<and> post (example_python (openrouter_reply (JStr cannot_reply))) example_db
        (example_request (Some (example_user 1 ''seeker'' False)) ''POST'' [(''limit'', JArr [JInt 1])]) =
      Inl TypeError
   \<and> post (example_python (openrouter_reply (JStr cannot_reply))) example_db
        (example_request (Some (example_user 1 ''seeker'' False)) ''POST'' [(''limit'', JInt (2 ^ 63))]) =
      Inl DatabaseError"
proof -
  let ?py = "example_python (openrouter_reply (JStr cannot_reply))"
  let ?u = "Some (example_user 1 ''seeker'' False)"
  let ?req = "example_request ?u ''POST'' []"
  let ?req1 = "example_request ?u ''POST'' [(''resume_text'', JInt 5)]"
  let ?req2 = "example_request ?u ''POST'' [(''limit'', JArr [JInt 1])]"
  let ?req3 = "example_request ?u ''POST'' [(''limit'', JInt (2 ^ 63))]"
  let ?r = "\<lparr>response_status = 200, response_body = Recommended JNull JNull (example_job 6 True)\<rparr>"
  note t = not_found_iff_no_active_job[where py = ?py and req = ?req and ?r0.0 = "[]" and limit = 25
      and d = empty_db and py' = ?py and d' = example_db and req' = ?req and r = ?r
      and ?py1.0 = ?py and ?req1.0 = ?req1 and ?e1.0 = AttributeError and ?d1.0 = example_db
      and ?py2.0 = ?py and ?req2.0 = ?req2 and ?r2.0 = "[]" and ?e2.0 = TypeError and ?d2.0 = example_db
      and ?py3.0 = ?py and ?req3.0 = ?req3 and ?r3.0 = "[]" and ?limit3.0 = "2 ^ 63" and ?d3.0 = example_db]
  have h1: "request_resume_text ?py ?req = Inr [] \<and> request_limit ?py ?req = Inr 25 \<and> (25::int) < 2 ^ 63
      \<and> filter job_is_active (jobs empty_db) = []"
    by (simp add: example_request_ok empty_db_def)
  have ne: "filter job_is_active (jobs example_db) \<noteq> []"
    by (simp add: example_db_def example_job_def)
  have h2: "filter job_is_active (jobs example_db) \<noteq> [] \<and> post ?py example_db ?req = Inr ?r"
    using ne post_cannot_reply_example by simp
  have h3: "request_resume_text ?py ?req1 = Inl AttributeError"
    by (simp add: request_resume_text_def example_request_def py_or_def dict_get_def)
  have h4: "request_resume_text ?py ?req2 = Inr [] \<and> request_limit ?py ?req2 = Inl TypeError"
    by (simp add: request_resume_text_def request_limit_def example_request_def example_python_def
        py_or_def dict_get_def)
  have h5: "request_resume_text ?py ?req3 = Inr [] \<and> request_limit ?py ?req3 = Inr (2 ^ 63)
      \<and> (2 ^ 63 :: int) \<le> 2 ^ 63"
    by (simp add: request_resume_text_def request_limit_def example_request_def example_python_def
        py_or_def dict_get_def)
  have c1: "post ?py empty_db ?req =
      Inr \<lparr>response_status = 404, response_body = Detail ''No active jobs available.''\<rparr>"
    by (rule mp[OF conjunct1[OF t] h1])
  have c2: "response_status ?r = 200"
    by (rule mp[OF conjunct1[OF conjunct2[OF t]] h2])
  have c2': "case post ?py example_db ?req of Inl e \<Rightarrow> False | Inr r \<Rightarrow> response_status r = 200"
    using c2 conjunct2[OF h2] by simp
  have c3: "post ?py example_db ?req1 = Inl AttributeError"
    by (rule mp[OF conjunct1[OF conjunct2[OF conjunct2[OF t]]] h3])
  have c4: "post ?py example_db ?req2 = Inl TypeError"
    by (rule mp[OF conjunct1[OF conjunct2[OF conjunct2[OF conjunct2[OF t]]]] h4])
  have c5: "post ?py example_db ?req3 = Inl DatabaseError"
    by (rule mp[OF conjunct2[OF conjunct2[OF conjunct2[OF conjunct2[OF t]]]] h5])
  show ?thesis by (intro conjI c1 c2' c3 c4 c5)
qed

text \<open>
  C7. When the request passes its conversions and the pool is not empty, an exception of
  \<^verbatim>\<open>requests.post\<close> (time-out, unreachable endpoint) is the outcome of the endpoint, and a
  reply with a status from 400 to 599 makes the endpoint raise the HTTP error; no job is
  returned in either case.
\<close>

theorem model_call_failure_propagates:
  "(request_resume_text py req = Inr r0 \<and> request_limit py req = Inr limit
      \<and> jobs_qs d limit = Inr qs \<and> qs \<noteq> []
      \<and> requests_post py (build_messages py (effective_resume d req r0)
            (map job_payload qs)) = Inl e \<longrightarrow>
    post py d req = Inl e)
   \<and> (request_resume_text py' req' = Inr r0' \<and> request_limit py' req' = Inr limit'
      \<and> jobs_qs d' limit' = Inr qs' \<and> qs' \<noteq> []
      \<and> requests_post py' (build_messages py' (effective_resume d' req' r0')
            (map job_payload qs')) = Inr resp
      \<and> 400 \<le> status_code resp \<and> status_code resp < 600 \<longrightarrow>
    post py' d' req' = Inl (HTTPError (status_code resp)))"
proof (rule conjI)
  show "request_resume_text py req = Inr r0 \<and> request_limit py req = Inr limit
      \<and> jobs_qs d limit = Inr qs \<and> qs \<noteq> []
      \<and> requests_post py (build_messages py (effective_resume d req r0)
            (map job_payload qs)) = Inl e \<longrightarrow>
    post py d req = Inl e"
  proof
    assume h: "request_resume_text py req = Inr r0 \<and> request_limit py req = Inr limit
      \<and> jobs_qs d limit = Inr qs \<and> qs \<noteq> []
      \<and> requests_post py (build_messages py (effective_resume d req r0)
            (map job_payload qs)) = Inl e"
    then have "recommend_best_job py (effective_resume d req r0) (map job_payload qs) = Inl e"
      by (simp add: recommend_best_job_def call_openrouter_def)
    with h show "post py d req = Inl e" using post_recommend_fails by blast
  qed
next
  show "request_resume_text py' req' = Inr r0' \<and> request_limit py' req' = Inr limit'
      \<and> jobs_qs d' limit' = Inr qs' \<and> qs' \<noteq> []
      \<and> requests_post py' (build_messages py' (effective_resume d' req' r0')
            (map job_payload qs')) = Inr resp
      \<and> 400 \<le> status_code resp \<and> status_code resp < 600 \<longrightarrow>
    post py' d' req' = Inl (HTTPError (status_code resp))"
  proof
    assume h: "request_resume_text py' req' = Inr r0' \<and> request_limit py' req' = Inr limit'
      \<and> jobs_qs d' limit' = Inr qs' \<and> qs' \<noteq> []
      \<and> requests_post py' (build_messages py' (effective_resume d' req' r0')
            (map job_payload qs')) = Inr resp
      \<and> 400 \<le> status_code resp \<and> status_code resp < 600"
    then have "recommend_best_job py' (effective_resume d' req' r0') (map job_payload qs')
        = Inl (HTTPError (status_code resp))"
      by (simp add: recommend_best_job_def call_openrouter_def raise_for_status_def)
    with h show "post py' d' req' = Inl (HTTPError (status_code resp))" using post_recommend_fails by blast
  qed
qed

theorem model_call_failure_propagates_witness:
  "post (example_python (Inl RequestException)) example_db
     (example_request (Some (example_user 1 ''seeker'' False)) ''POST'' []) = Inl RequestException
   \<and> post (example_python (Inr \<lparr>status_code = 503, reply_json = Inl ValueError\<rparr>)) example_db
        (example_request (Some (example_user 1 ''seeker'' False)) ''POST'' []) = Inl (HTTPError 503)"
proof -
  let ?py = "example_python (Inl RequestException)"
  let ?resp = "\<lparr>status_code = 503, reply_json = Inl ValueError\<rparr>"
  let ?py' = "example_python (Inr ?resp)"
  let ?req = "example_request (Some (example_user 1 ''seeker'' False)) ''POST'' []"
  let ?qs = "[example_job 6 True, example_job 5 True, example_job 4 True,
     example_job 3 True, example_job 2 True, example_job 1 True]"
  note t = model_call_failure_propagates[where py = ?py and req = ?req and ?r0.0 = "[]" and limit = 25
      and d = example_db and qs = ?qs and e = RequestException and py' = ?py' and req' = ?req
      and ?r0' = "[]" and limit' = 25 and d' = example_db and qs' = ?qs and resp = ?resp]
  have ne: "?qs \<noteq> []" by simp
  have p1: "requests_post ?py (build_messages ?py (effective_resume example_db ?req [])
            (map job_payload ?qs)) = Inl RequestException"
    by (simp add: example_python_def)
  have p2: "requests_post ?py' (build_messages ?py' (effective_resume example_db ?req [])
            (map job_payload ?qs)) = Inr ?resp"
    by (simp add: example_python_def)
  have s: "400 \<le> status_code ?resp" "status_code ?resp < 600" by simp_all
  have h1: "request_resume_text ?py ?req = Inr [] \<and> request_limit ?py ?req = Inr 25
      \<and> jobs_qs example_db 25 = Inr ?qs \<and> ?qs \<noteq> []
      \<and> requests_post ?py (build_messages ?py (effective_resume example_db ?req [])
            (map job_payload ?qs)) = Inl RequestException"
    by (intro conjI example_request_ok(1) example_request_ok(2) example_jobs_qs_25 ne p1)
  have h2: "request_resume_text ?py' ?req = Inr [] \<and> request_limit ?py' ?req = Inr 25
      \<and> jobs_qs example_db 25 = Inr ?qs \<and> ?qs \<noteq> []
      \<and> requests_post ?py' (build_messages ?py' (effective_resume example_db ?req [])
            (map job_payload ?qs)) = Inr ?resp
      \<and> 400 \<le> status_code ?resp \<and> status_code ?resp < 600"
    by (intro conjI example_request_ok(1) example_request_ok(2) example_jobs_qs_25 ne p2 s)
  from mp[OF conjunct1[OF t] h1] mp[OF conjunct2[OF t] h2] show ?thesis by simp
qed

section \<open>Applications\<close>

lemma find_snoc:
  "find P (xs @ [x]) = (case find P xs of None \<Rightarrow> (if P x then Some x else None) | Some y \<Rightarrow> Some y)"
  by (induction xs) auto

lemma application_exists_pairs:
  "application_exists d j s \<longleftrightarrow> (j, s) \<in> set (map (\<lambda>a. (application_job a, application_seeker a)) (applications d))"
  by (auto simp: application_exists_def list_ex_iff)

lemma perform_create_application_distinct:
  assumes "distinct (map (\<lambda>a. (application_job a, application_seeker a)) (applications d))"
  shows "distinct (map (\<lambda>a. (application_job a, application_seeker a))
           (applications (snd (perform_create_application now d req vd))))"
  using assms
  by (auto simp: perform_create_application_def Let_def application_exists_pairs
      split: option.splits if_splits)

lemma perform_create_application_first:
  assumes "request_user req = Some u" and "role u = ''seeker''"
    and "data_job vd = Some j" and "job_is_active j"
    and "sid = (case seeker_profile d u of Some s \<Rightarrow> seeker_id s | None \<Rightarrow> next_pk (map seeker_id (seekers d)))"
    and "\<not> application_exists d (job_id j) sid"
  shows "\<exists>d1. perform_create_application now d req vd = (Inr (), d1)
     \<and> applications d1 = applications d @
          [\<lparr>application_id = next_pk (map application_id (applications d)),
            application_job = job_id j, application_seeker = sid,
            application_status = (case data_status vd of None \<Rightarrow> PENDING | Some st \<Rightarrow> st),
            match_score = None, application_created_at = now\<rparr>]
     \<and> (\<exists>s. seeker_profile d1 u = Some s \<and> seeker_id s = sid)"
proof (cases "seeker_profile d u")
  case None
  then show ?thesis
    using assms
    by (simp add: perform_create_application_def Let_def application_exists_def seeker_profile_def find_snoc)
next
  case (Some s)
  then show ?thesis
    using assms
    by (simp add: perform_create_application_def Let_def application_exists_def seeker_profile_def)
qed

lemma perform_create_application_duplicate:
  assumes "request_user req = Some u" and "role u = ''seeker''"
    and "data_job vd = Some j" and "job_is_active j"
    and "seeker_profile d u = Some s" and "application_exists d (job_id j) (seeker_id s)"
  shows "perform_create_application now d req vd =
           (Inl (PermissionDenied ''You have already applied to this job.''), d)"
  using assms by (simp add: perform_create_application_def Let_def)

lemma perform_create_interview_applications:
  "applications (snd (perform_create_interview py now d req vd)) = applications d"
  by (auto simp: perform_create_interview_def update_or_create_appointment_def Let_def
      split: option.splits sum.splits list.splits prod.splits)

lemma destroy_applications: "applications (snd (destroy d pk)) = applications d"
  by (simp add: destroy_def split: option.splits)

lemma step_unique_pairs: "unique_pairs d \<Longrightarrow> unique_pairs (step py d a)"
proof (cases a)
  case (Apply now req vd)
  then show "unique_pairs d \<Longrightarrow> unique_pairs (step py d a)"
    using perform_create_application_distinct[of d now req vd] by (simp add: unique_pairs_def)
next
  case (Schedule now req vd)
  then show "unique_pairs d \<Longrightarrow> unique_pairs (step py d a)"
    by (simp add: unique_pairs_def perform_create_interview_applications)
next
  case (Deactivate pk)
  then show "unique_pairs d \<Longrightarrow> unique_pairs (step py d a)"
    by (simp add: unique_pairs_def destroy_applications)
qed

lemma run_unique_pairs: "unique_pairs d \<Longrightarrow> unique_pairs (run py d acts)"
  unfolding run_def
proof (induction acts arbitrary: d)
  case Nil
  then show ?case by simp
next
  case (Cons a acts)
  from Cons.IH[OF step_unique_pairs[OF Cons.prems]] show ?case by simp
qed

text \<open>
  C3, as stated, fails twice. \<open>status\<close> is a writable field of the serializer, so a first
  application whose request carries the status \<^verbatim>\<open>ACCEPTED\<close> is created with that status, not
  with \<^verbatim>\<open>PENDING\<close>. And more than one application can exist for a pair: after seeker 1 has
  applied to jobs 1 and 2, the provider who owns both updates the application to job 1 with
  \<open>job = 2\<close>; the update is saved and the store holds two applications of seeker 1 to job 2.
\<close>

theorem status_and_uniqueness_counterexample:
  "\<not> application_exists example_db 1 1
   \<and> fst (perform_create_application 10 example_db
        (example_request (Some (example_user 1 ''seeker'' False)) ''POST'' [])
        \<lparr>data_job = Some (example_job 1 True), data_status = Some ACCEPTED\<rparr>) = Inr ()
   \<and> map (\<lambda>a. (application_job a, application_seeker a, application_status a))
        (applications (snd (perform_create_application 10 example_db
           (example_request (Some (example_user 1 ''seeker'' False)) ''POST'' [])
           \<lparr>data_job = Some (example_job 1 True), data_status = Some ACCEPTED\<rparr>))) =
      [(2, 1, PENDING), (1, 1, ACCEPTED)]
   \<and> unique_pairs (snd (perform_create_application 10 example_db
        (example_request (Some (example_user 1 ''seeker'' False)) ''POST'' [])
        \<lparr>data_job = Some (example_job 1 True), data_status = None\<rparr>))
   \<and> fst (update_application
        (snd (perform_create_application 10 example_db
           (example_request (Some (example_user 1 ''seeker'' False)) ''POST'' [])
           \<lparr>data_job = Some (example_job 1 True), data_status = None\<rparr>))
        (example_request (Some (example_user 2 ''provider'' False)) ''PATCH'' []) 2
        \<lparr>data_job = Some (example_job 2 True), data_status = None\<rparr>) = Inr ()
   \<and> map (\<lambda>a. (application_id a, application_job a, application_seeker a))
        (applications (snd (update_application
           (snd (perform_create_application 10 example_db
              (example_request (Some (example_user 1 ''seeker'' False)) ''POST'' [])
              \<lparr>data_job = Some (example_job 1 True), data_status = None\<rparr>))
           (example_request (Some (example_user 2 ''provider'' False)) ''PATCH'' []) 2
           \<lparr>data_job = Some (example_job 2 True), data_status = None\<rparr>))) =
      [(1, 2, 1), (2, 2, 1)]
   \<and> \<not> unique_pairs (snd (update_application
           (snd (perform_create_application 10 example_db
              (example_request (Some (example_user 1 ''seeker'' False)) ''POST'' [])
              \<lparr>data_job = Some (example_job 1 True), data_status = None\<rparr>))
           (example_request (Some (example_user 2 ''provider'' False)) ''PATCH'' []) 2
           \<lparr>data_job = Some (example_job 2 True), data_status = None\<rparr>))"
proof -
  let ?sreq = "example_request (Some (example_user 1 ''seeker'' False)) ''POST'' []"
  let ?preq = "example_request (Some (example_user 2 ''provider'' False)) ''PATCH'' []"
  let ?d1 = "snd (perform_create_application 10 example_db ?sreq
               \<lparr>data_job = Some (example_job 1 True), data_status = None\<rparr>)"
  let ?app2 = "\<lparr>application_id = 2, application_job = 1, application_seeker = 1,
                application_status = PENDING, match_score = None, application_created_at = 10\<rparr>"
  have s: "\<not> application_exists example_db 1 1
     \<and> fst (perform_create_application 10 example_db ?sreq
        \<lparr>data_job = Some (example_job 1 True), data_status = Some ACCEPTED\<rparr>) = Inr ()
     \<and> map (\<lambda>a. (application_job a, application_seeker a, application_status a))
        (applications (snd (perform_create_application 10 example_db ?sreq
           \<lparr>data_job = Some (example_job 1 True), data_status = Some ACCEPTED\<rparr>))) =
      [(2, 1, PENDING), (1, 1, ACCEPTED)]"
    by (simp add: perform_create_application_def application_exists_def seeker_profile_def
        example_db_def example_request_def example_user_def example_job_def Let_def)
  have d1: "?d1 = example_db\<lparr>applications := applications example_db @ [?app2]\<rparr>"
    by (simp add: perform_create_application_def application_exists_def seeker_profile_def
        example_db_def example_request_def example_user_def example_job_def Let_def next_pk_def)
  have u1: "unique_pairs ?d1"
    unfolding d1 by (simp add: unique_pairs_def example_db_def)
  let ?D = "example_db\<lparr>applications := applications example_db @ [?app2]\<rparr>"
  have g: "get_object_application ?D ?preq 2 = Inr ?app2"
    by (simp add: get_object_application_def super_get_object_application_def employer_profile_def
        example_db_def example_request_def example_user_def example_job_def)
  have up: "update_application ?D ?preq 2 \<lparr>data_job = Some (example_job 2 True), data_status = None\<rparr> =
      (Inr (), ?D\<lparr>applications :=
         map (\<lambda>a. if application_id a = 2
                   then a\<lparr>application_job := 2, application_status := application_status a\<rparr>
                   else a) (applications ?D)\<rparr>)"
    by (simp only: update_application_def g) (simp add: example_job_def)
  have m: "map (\<lambda>a. (application_id a, application_job a, application_seeker a))
        (applications (snd (update_application ?d1 ?preq 2
           \<lparr>data_job = Some (example_job 2 True), data_status = None\<rparr>))) = [(1, 2, 1), (2, 2, 1)]"
    unfolding d1 up by (simp add: example_db_def)
  have nu: "\<not> unique_pairs (snd (update_application ?d1 ?preq 2
           \<lparr>data_job = Some (example_job 2 True), data_status = None\<rparr>))"
    unfolding d1 up by (simp add: example_db_def unique_pairs_def)
  have f: "fst (update_application ?d1 ?preq 2
           \<lparr>data_job = Some (example_job 2 True), data_status = None\<rparr>) = Inr ()"
    unfolding d1 up by simp
  show ?thesis
    using s u1 f m nu by blast
qed

text \<open>
  C3, amended. For a caller with the role seeker and an active job, when no application exists
  for the job and the caller's seeker profile (the one found, or the one created for the
  caller), the application is created with the status the request supplies, \<^verbatim>\<open>PENDING\<close> when
  it supplies none; a second application for the same job is refused with
  \<^verbatim>\<open>PermissionDenied\<close> and leaves the store as it was. So at most one application exists per
  pair of job and seeker in every store reached, from a store where that holds, by any sequence
  of application creations, interview creations and deletes of users. The update of an
  application is outside this guarantee.
\<close>

theorem first_application_created_second_denied:
  "(request_user req = Some u \<and> role u = ''seeker''
      \<and> data_job vd = Some j \<and> data_job vd' = Some j \<and> job_is_active j
      \<and> sid = (case seeker_profile d u of Some s \<Rightarrow> seeker_id s
                | None \<Rightarrow> next_pk (map seeker_id (seekers d)))
      \<and> \<not> application_exists d (job_id j) sid \<longrightarrow>
    (\<exists>d1. perform_create_application now d req vd = (Inr (), d1)
       \<and> applications d1 = applications d @
            [\<lparr>application_id = next_pk (map application_id (applications d)),
              application_job = job_id j, application_seeker = sid,
              application_status = (case data_status vd of None \<Rightarrow> PENDING | Some st \<Rightarrow> st),
              match_score = None, application_created_at = now\<rparr>]
       \<and> perform_create_application now' d1 req vd' =
            (Inl (PermissionDenied ''You have already applied to this job.''), d1)))
   \<and> (unique_pairs d0 \<longrightarrow> unique_pairs (run py d0 acts))"
proof (rule conjI)
  show "request_user req = Some u \<and> role u = ''seeker''
      \<and> data_job vd = Some j \<and> data_job vd' = Some j \<and> job_is_active j
      \<and> sid = (case seeker_profile d u of Some s \<Rightarrow> seeker_id s
                | None \<Rightarrow> next_pk (map seeker_id (seekers d)))
      \<and> \<not> application_exists d (job_id j) sid \<longrightarrow>
    (\<exists>d1. perform_create_application now d req vd = (Inr (), d1)
       \<and> applications d1 = applications d @
            [\<lparr>application_id = next_pk (map application_id (applications d)),
              application_job = job_id j, application_seeker = sid,
              application_status = (case data_status vd of None \<Rightarrow> PENDING | Some st \<Rightarrow> st),
              match_score = None, application_created_at = now\<rparr>]
       \<and> perform_create_application now' d1 req vd' =
            (Inl (PermissionDenied ''You have already applied to this job.''), d1))"
  proof
    assume h: "request_user req = Some u \<and> role u = ''seeker''
      \<and> data_job vd = Some j \<and> data_job vd' = Some j \<and> job_is_active j
      \<and> sid = (case seeker_profile d u of Some s \<Rightarrow> seeker_id s
                | None \<Rightarrow> next_pk (map seeker_id (seekers d)))
      \<and> \<not> application_exists d (job_id j) sid"
    then have a: "request_user req = Some u" "role u = ''seeker''" "data_job vd = Some j"
      "job_is_active j"
      "sid = (case seeker_profile d u of Some s \<Rightarrow> seeker_id s
                | None \<Rightarrow> next_pk (map seeker_id (seekers d)))"
      "\<not> application_exists d (job_id j) sid"
      and b: "data_job vd' = Some j"
      by blast+
    from perform_create_application_first[OF a, of now] obtain d1 s where
      d1: "perform_create_application now d req vd = (Inr (), d1)"
      and apps: "applications d1 = applications d @
            [\<lparr>application_id = next_pk (map application_id (applications d)),
              application_job = job_id j, application_seeker = sid,
              application_status = (case data_status vd of None \<Rightarrow> PENDING | Some st \<Rightarrow> st),
              match_score = None, application_created_at = now\<rparr>]"
      and s: "seeker_profile d1 u = Some s" "seeker_id s = sid"
      by blast
    have ex: "application_exists d1 (job_id j) (seeker_id s)"
      using apps s(2) by (simp add: application_exists_def)
    have "perform_create_application now' d1 req vd' =
            (Inl (PermissionDenied ''You have already applied to this job.''), d1)"
      by (rule perform_create_application_duplicate[OF a(1) a(2) b a(4) s(1) ex])
    with d1 apps show "\<exists>d1. perform_create_application now d req vd = (Inr (), d1)
       \<and> applications d1 = applications d @
            [\<lparr>application_id = next_pk (map application_id (applications d)),
              application_job = job_id j, application_seeker = sid,
              application_status = (case data_status vd of None \<Rightarrow> PENDING | Some st \<Rightarrow> st),
              match_score = None, application_created_at = now\<rparr>]
       \<and> perform_create_application now' d1 req vd' =
            (Inl (PermissionDenied ''You have already applied to this job.''), d1)"
      by blast
  qed
next
  show "unique_pairs d0 \<longrightarrow> unique_pairs (run py d0 acts)"
    using run_unique_pairs by blast
qed

theorem first_application_created_second_denied_witness:
  "(\<exists>d1. perform_create_application 10 example_db
            (example_request (Some (example_user 1 ''seeker'' False)) ''POST'' [])
            \<lparr>data_job = Some (example_job 1 True), data_status = None\<rparr> = (Inr (), d1)
       \<and> map (\<lambda>a. (application_job a, application_seeker a, application_status a)) (applications d1) =
            [(2, 1, PENDING), (1, 1, PENDING)]
       \<and> perform_create_application 11 d1
            (example_request (Some (example_user 1 ''seeker'' False)) ''POST'' [])
            \<lparr>data_job = Some (example_job 1 True), data_status = None\<rparr> =
            (Inl (PermissionDenied ''You have already applied to this job.''), d1))
   \<and> unique_pairs (run (example_python (Inl RequestException)) example_db
        [Apply 10 (example_request (Some (example_user 1 ''seeker'' False)) ''POST'' [])
           \<lparr>data_job = Some (example_job 1 True), data_status = None\<rparr>,
         Apply 11 (example_request (Some (example_user 1 ''seeker'' False)) ''POST'' [])
           \<lparr>data_job = Some (example_job 1 True), data_status = None\<rparr>,
         Schedule 12 (example_request (Some (example_user 2 ''provider'' False)) ''POST''
           [(''application'', JInt 1)]) \<lparr>data_title = ''Intro'', data_date = 1, data_time = 2\<rparr>,
         Deactivate 1])"
proof -
  let ?u = "example_user 1 ''seeker'' False"
  let ?req = "example_request (Some ?u) ''POST'' []"
  let ?vd = "\<lparr>data_job = Some (example_job 1 True), data_status = None\<rparr>"
  let ?py = "example_python (Inl RequestException)"
  let ?acts = "[Apply 10 ?req ?vd, Apply 11 ?req ?vd,
         Schedule 12 (example_request (Some (example_user 2 ''provider'' False)) ''POST''
           [(''application'', JInt 1)]) \<lparr>data_title = ''Intro'', data_date = 1, data_time = 2\<rparr>,
         Deactivate 1]"
  note t = first_application_created_second_denied[where req = ?req and u = ?u and vd = ?vd
      and vd' = ?vd and j = "example_job 1 True" and sid = 1 and d = example_db and now = 10
      and now' = 11 and ?d0.0 = example_db and py = ?py and acts = ?acts]
  have h1: "request_user ?req = Some ?u \<and> role ?u = ''seeker''
      \<and> data_job ?vd = Some (example_job 1 True) \<and> data_job ?vd = Some (example_job 1 True)
      \<and> job_is_active (example_job 1 True)
      \<and> 1 = (case seeker_profile example_db ?u of Some s \<Rightarrow> seeker_id s
                | None \<Rightarrow> next_pk (map seeker_id (seekers example_db)))
      \<and> \<not> application_exists example_db (job_id (example_job 1 True)) 1"
    by (simp add: example_request_def example_user_def example_job_def seeker_profile_def
        example_db_def application_exists_def)
  have h2: "unique_pairs example_db"
    by (simp add: unique_pairs_def example_db_def)
  from mp[OF conjunct1[OF t] h1] obtain d1 where
    d1: "perform_create_application 10 example_db ?req ?vd = (Inr (), d1)"
    and apps: "applications d1 = applications example_db @
            [\<lparr>application_id = next_pk (map application_id (applications example_db)),
              application_job = job_id (example_job 1 True), application_seeker = 1,
              application_status = (case data_status ?vd of None \<Rightarrow> PENDING | Some st \<Rightarrow> st),
              match_score = None, application_created_at = 10\<rparr>]"
    and second: "perform_create_application 11 d1 ?req ?vd =
            (Inl (PermissionDenied ''You have already applied to this job.''), d1)"
    by blast
  have m: "map (\<lambda>a. (application_job a, application_seeker a, application_status a)) (applications d1) =
            [(2, 1, PENDING), (1, 1, PENDING)]"
    by (simp add: apps example_db_def example_job_def)
  have e: "\<exists>d1. perform_create_application 10 example_db ?req ?vd = (Inr (), d1)
       \<and> map (\<lambda>a. (application_job a, application_seeker a, application_status a)) (applications d1) =
            [(2, 1, PENDING), (1, 1, PENDING)]
       \<and> perform_create_application 11 d1 ?req ?vd =
            (Inl (PermissionDenied ''You have already applied to this job.''), d1)"
    by (rule exI[of _ d1]) (intro conjI d1 m second)
  show ?thesis
    by (rule conjI[OF e mp[OF conjunct2[OF t] h2]])
qed

section \<open>Soft delete of a user\<close>

lemma find_deactivated:
  "find (\<lambda>u. user_id u = pk) (map (\<lambda>u. if user_id u = pk then u\<lparr>user_is_active := False\<rparr> else u) us) =
     map_option (\<lambda>u. u\<lparr>user_is_active := False\<rparr>) (find (\<lambda>u. user_id u = pk) us)"
  by (induction us) auto

lemma deactivate_twice:
  "map (\<lambda>u. if user_id u = pk then u\<lparr>user_is_active := False\<rparr> else u)
     (map (\<lambda>u. if user_id u = pk then u\<lparr>user_is_active := False\<rparr> else u) us) =
   map (\<lambda>u. if user_id u = pk then u\<lparr>user_is_active := False\<rparr> else u) us"
  by (induction us) auto

lemma destroy_found:
  assumes "find (\<lambda>u. user_id u = pk) (users d) = Some u"
  shows "destroy d pk =
     (Inr \<lparr>response_status = 204, response_body = NoContent\<rparr>,
      d\<lparr>users := map (\<lambda>x. if user_id x = pk then x\<lparr>user_is_active := False\<rparr> else x) (users d)\<rparr>)"
proof -
  from assms have "user_id u = pk" by (auto simp: find_Some_iff)
  with assms show ?thesis by (simp add: destroy_def)
qed

text \<open>
  C9. The administrator's delete of an existing user answers 204 and removes no row: the
  table of users keeps its length, the rows with the key have \<open>is_active\<close> false and every
  other field as before, every other row and every other table is unchanged, and a second
  delete answers 204 again and leaves the store as the first one left it.
\<close>

theorem admin_destroy_soft_deletes:
  "find (\<lambda>x. user_id x = pk) (users d) = Some u \<longrightarrow>
     (\<exists>d1. destroy d pk = (Inr \<lparr>response_status = 204, response_body = NoContent\<rparr>, d1)
        \<and> length (users d1) = length (users d)
        \<and> (\<forall>i < length (users d).
              users d1 ! i = (if user_id (users d ! i) = pk then (users d ! i)\<lparr>user_is_active := False\<rparr>
                              else users d ! i))
        \<and> employers d1 = employers d \<and> seekers d1 = seekers d \<and> jobs d1 = jobs d
        \<and> applications d1 = applications d \<and> interviews d1 = interviews d
        \<and> appointments d1 = appointments d \<and> payments d1 = payments d
        \<and> destroy d1 pk = (Inr \<lparr>response_status = 204, response_body = NoContent\<rparr>, d1))"
proof
  assume f: "find (\<lambda>x. user_id x = pk) (users d) = Some u"
  let ?d1 = "d\<lparr>users := map (\<lambda>x. if user_id x = pk then x\<lparr>user_is_active := False\<rparr> else x) (users d)\<rparr>"
  have 1: "destroy d pk = (Inr \<lparr>response_status = 204, response_body = NoContent\<rparr>, ?d1)"
    by (rule destroy_found[OF f])
  have f1: "find (\<lambda>x. user_id x = pk) (users ?d1) = Some (u\<lparr>user_is_active := False\<rparr>)"
    using f by (simp add: find_deactivated)
  have 2: "destroy ?d1 pk = (Inr \<lparr>response_status = 204, response_body = NoContent\<rparr>, ?d1)"
    using destroy_found[OF f1] by (simp add: deactivate_twice)
  show "\<exists>d1. destroy d pk = (Inr \<lparr>response_status = 204, response_body = NoContent\<rparr>, d1)
        \<and> length (users d1) = length (users d)
        \<and> (\<forall>i < length (users d).
              users d1 ! i = (if user_id (users d ! i) = pk then (users d ! i)\<lparr>user_is_active := False\<rparr>
                              else users d ! i))
        \<and> employers d1 = employers d \<and> seekers d1 = seekers d \<and> jobs d1 = jobs d
        \<and> applications d1 = applications d \<and> interviews d1 = interviews d
        \<and> appointments d1 = appointments d \<and> payments d1 = payments d
        \<and> destroy d1 pk = (Inr \<lparr>response_status = 204, response_body = NoContent\<rparr>, d1)"
    by (rule exI[of _ ?d1]) (simp add: 1 2)
qed

theorem admin_destroy_soft_deletes_witness:
  "\<exists>d1. destroy example_db 1 = (Inr \<lparr>response_status = 204, response_body = NoContent\<rparr>, d1)
     \<and> map (\<lambda>x. (user_id x, user_is_active x)) (users d1) = [(1, False), (2, True), (3, True)]
     \<and> applications d1 = applications example_db \<and> payments d1 = payments example_db
     \<and> destroy d1 1 = (Inr \<lparr>response_status = 204, response_body = NoContent\<rparr>, d1)"
proof -
  have f: "find (\<lambda>x. user_id x = 1) (users example_db) = Some (example_user 1 ''seeker'' False)"
    by (simp add: example_db_def example_user_def)
  from mp[OF admin_destroy_soft_deletes[of 1 example_db "example_user 1 ''seeker'' False"] f]
  obtain d1 where
    a: "destroy example_db 1 = (Inr \<lparr>response_status = 204, response_body = NoContent\<rparr>, d1)"
    and b: "applications d1 = applications example_db" "payments d1 = payments example_db"
    and c: "destroy d1 1 = (Inr \<lparr>response_status = 204, response_body = NoContent\<rparr>, d1)"
    by blast
  have "d1 = snd (destroy example_db 1)" using a by simp
  then have m: "map (\<lambda>x. (user_id x, user_is_active x)) (users d1) = [(1, False), (2, True), (3, True)]"
    by (simp add: destroy_def example_db_def example_user_def)
  show ?thesis
    by (rule exI[of _ d1]) (intro conjI a m b c)
qed


section \<open>Retrieval of a job for update and delete\<close>

lemma get_object_some_iff:
  "get_object d req pk = Inr (Some j) \<longleftrightarrow>
     request_method req = ''GET'' \<and> find (\<lambda>x. job_id x = pk) (jobs d) = Some j \<and> job_is_active j"
  by (auto simp: get_object_def super_get_object_def split: option.splits)

text \<open>
  C10. The view's \<open>get_object\<close> returns the job on one path only, a GET of an active job. For
  PUT, PATCH and DELETE (and for a GET of an inactive job) it reaches the end of the function
  and returns \<^verbatim>\<open>None\<close>, so the update and delete handlers receive no object to act on.
\<close>

theorem get_object_returns_none_for_mutation:
  "get_object example_db (example_request (Some (example_user 2 ''provider'' False)) ''DELETE'' []) 1 = Inr None
   \<and> get_object example_db (example_request (Some (example_user 2 ''provider'' False)) ''PUT'' []) 1 = Inr None
   \<and> get_object example_db (example_request (Some (example_user 2 ''provider'' False)) ''PATCH'' []) 1 = Inr None
   \<and> get_object example_db (example_request (Some (example_user 2 ''provider'' False)) ''GET'' []) 1 =
       Inr (Some (example_job 1 True))
   \<and> get_object example_db (example_request (Some (example_user 2 ''provider'' False)) ''GET'' []) 7 = Inr None"
  by (simp add: get_object_def super_get_object_def example_db_def example_request_def example_job_def)



section \<open>Interviews and the appointment of an application\<close>







lemma get_application_id:
  "get_application d n = Some (app, j) \<Longrightarrow> int (application_id app) = n"
  by (auto simp: get_application_def find_Some_iff split: option.splits)


lemma appointments_for_interviews_update [simp]:
  "appointments_for (d\<lparr>interviews := xs\<rparr>) a = appointments_for d a"
  by (simp add: appointments_for_def)




end
